theory Spec2Isabelle
  imports Main
begin

section \<open>Go values: panics, errors, formatted text\<close>

text \<open>
  The repository holds two variants of each of its two files: the first
  \<^verbatim>\<open>configuration.go\<close>/\<^verbatim>\<open>fs.go\<close> pair checks the HTTP status in
  \<^verbatim>\<open>requestHdfsData\<close> and has no authentication; the second pair has the
  cookie-based (Knox) authentication and no status check. Definitions of the second pair
  carry the suffix \<open>_knox\<close>. A Go \<^verbatim>\<open>string\<close> and a \<^verbatim>\<open>[]byte\<close> are byte sequences,
  here \<^typ>\<open>string\<close>; Go's \<^verbatim>\<open>int\<close> and \<^verbatim>\<open>time.Duration\<close> are \<^typ>\<open>int\<close> (the code
  compares them and never computes with them).
\<close>

type_synonym Duration = int

datatype panic = NilDereference | IndexOutOfRange

text \<open>A call either panics or returns; a Go result list \<^verbatim>\<open>(T, error)\<close> is a pair
  whose second component is \<open>None\<close> for \<^verbatim>\<open>nil\<close>.\<close>

datatype 'a result = Panic panic | Return 'a

text \<open>An error made by the standard library (\<^verbatim>\<open>net/url\<close>, \<^verbatim>\<open>net/http\<close>,
  \<^verbatim>\<open>encoding/json\<close>, \<^verbatim>\<open>io\<close>), with its text.\<close>

datatype liberror = LibError string

text \<open>Modelled from the spec: the declaration of \<^verbatim>\<open>RemoteException\<close> is not under
  src/. The spec gives the remote exception a class name, a message and a Java class name
  (JSON keys \<^verbatim>\<open>exception\<close>, \<^verbatim>\<open>message\<close>, \<^verbatim>\<open>javaClassName\<close>), and uses it as a
  typed error.\<close>

record RemoteException =
  Exception :: string
  Message :: string
  JavaClassName :: string

text \<open>
  The errors the code builds. \<open>errBadStatusCode\<close> is the package variable
  \<^verbatim>\<open>var errBadStatusCode = errors.New("bad status code")\<close>, an error with an identity of its
  own; \<open>ErrorsNew s\<close> is \<^verbatim>\<open>errors.New(s)\<close> at a call site; \<open>Errorf s\<close> is a
  \<^verbatim>\<open>fmt.Errorf\<close> whose operands are all text; \<open>ErrorfV s e\<close> is
  \<^verbatim>\<open>fmt.Errorf(s + "%v", e)\<close> (the text of \<open>e\<close> after \<open>s\<close>, nothing to unwrap);
  \<open>ErrorfW e s\<close> is \<^verbatim>\<open>fmt.Errorf("%w" + s, e)\<close> (wraps \<open>e\<close>); \<open>Lib e\<close> is a library
  error passed on; \<open>RemoteError r\<close> is a \<^verbatim>\<open>RemoteException\<close> value returned as
  an error.
\<close>

datatype goerror =
    errBadStatusCode
  | ErrorsNew string
  | Errorf string
  | ErrorfV string goerror
  | ErrorfW goerror string
  | Lib liberror
  | RemoteError RemoteException

text \<open>\<^verbatim>\<open>errors.Is\<close>: the error itself or one it wraps with \<^verbatim>\<open>%w\<close>.\<close>

fun errors_Is :: "goerror \<Rightarrow> goerror \<Rightarrow> bool" where
  "errors_Is (ErrorfW e s) t = (ErrorfW e s = t \<or> errors_Is e t)"
| "errors_Is e t = (e = t)"

text \<open>The verb \<^verbatim>\<open>%d\<close> of \<^verbatim>\<open>fmt\<close>: decimal digits, a minus sign for a negative number.\<close>

definition decimal_digits :: string where
  "decimal_digits = ''0123456789''"

function fmt_nat :: "nat \<Rightarrow> string" where
  "fmt_nat n = (if n < 10 then [decimal_digits ! n]
                else fmt_nat (n div 10) @ [decimal_digits ! (n mod 10)])"
  by pat_completeness auto
termination
  by (relation "measure id") auto

declare fmt_nat.simps [simp del]

definition fmt_d :: "int \<Rightarrow> string" where
  "fmt_d i = (if i < 0 then ''-'' @ fmt_nat (nat (- i)) else fmt_nat (nat i))"

section \<open>configuration.go\<close>

definition WebHdfsVer :: string where
  "WebHdfsVer = ''/webhdfs/v1''"

text \<open>The fields both variants of \<^verbatim>\<open>Configuration\<close> declare, in their order; each
  variant extends them with its own.\<close>

record ConfigurationCommon =
  Addr :: string
  BasePath :: string
  User :: string
  Password :: string
  ConnectionTimeout :: Duration
  DisableKeepAlives :: bool
  DisableCompression :: bool
  ResponseHeaderTimeout :: Duration
  MaxIdleConnsPerHost :: int

record Configuration = ConfigurationCommon +
  UseBaseAuth :: bool
  UseHTTPS :: bool
  TLSClientSkipSecurity :: bool
  Retries :: "unit \<Rightarrow> Duration list"

record Configuration_knox = ConfigurationCommon +
  EnableHTTPS :: bool
  EnableKnoxAuth :: bool

text \<open>\<^verbatim>\<open>url.URL\<close>, the fields the code reads and writes, and \<^verbatim>\<open>url.Values\<close>
  (\<^verbatim>\<open>map[string][]string\<close>; an absent key has no values).\<close>

record URL =
  Scheme :: string
  Host :: string
  Path :: string
  RawQuery :: string

type_synonym Values = "string \<Rightarrow> string list"

definition Values_Add :: "Values \<Rightarrow> string \<Rightarrow> string \<Rightarrow> Values" where
  "Values_Add q key val = q(key := q key @ [val])"

record http_Request =
  Method :: string
  ReqURL :: URL
  BasicAuth :: "(string \<times> string) option"

text \<open>A response as the client hands it over; \<open>Body\<close> is what reading the body to its
  end gives (\<^verbatim>\<open>ioutil.ReadAll\<close>: the bytes read, and the error that stopped the
  reading, if any).\<close>

record http_Response =
  StatusCode :: int
  Status :: string
  Body :: "string \<times> liberror option"

record http_Cookie =
  CookieName :: string
  CookieValue :: string

record http_Transport =
  DialTimeout :: Duration
  TransportMaxIdleConnsPerHost :: int
  TransportResponseHeaderTimeout :: Duration

record http_Client =
  Transport :: http_Transport

text \<open>Modelled from the spec: the declaration of \<^verbatim>\<open>HdfsJsonData\<close> is not under src/.
  The spec's remote envelope has the operation-specific fields of a success (here one field
  of a type \<open>'p\<close> left open) and the remote exception.\<close>

record 'p HdfsJsonData =
  Payload :: 'p
  RemoteException :: RemoteException

text \<open>
  What the code calls and does not define: the standard library and the remote service.
  \<open>'w\<close> is the state outside the program that a request can read and change (the remote
  service and the cookie jar of the client). \<open>payload_zero\<close> is the zero value of the
  operation-specific fields.
\<close>

record ('p, 'w) platform =
  url_Parse :: "string \<Rightarrow> liberror + URL"
  url_ParseQuery :: "string \<Rightarrow> Values"
  Values_Encode :: "Values \<Rightarrow> string"
  url_String :: "URL \<Rightarrow> string"
  http_NewRequest :: "string \<Rightarrow> string \<Rightarrow> liberror + http_Request"
  round_trip :: "http_Client \<Rightarrow> http_Request \<Rightarrow> 'w \<Rightarrow> (liberror + http_Response) \<times> 'w"
  cookiejar_New :: "'w \<Rightarrow> liberror + 'w"
  jar_Cookies :: "'w \<Rightarrow> URL \<Rightarrow> http_Cookie list"
  httputil_DumpResponse :: "http_Response \<Rightarrow> string"
  json_Unmarshal :: "string \<Rightarrow> 'p HdfsJsonData \<Rightarrow> 'p HdfsJsonData \<times> liberror option"
  payload_zero :: 'p

text \<open>
  The state a call runs in: \<open>os_user\<close> is the user name \<^verbatim>\<open>user.Current()\<close> finds
  (\<open>None\<close> when the lookup fails and the returned pointer is nil); \<open>confs\<close> are the
  \<^verbatim>\<open>Configuration\<close> variables alive, a pointer to one being its index; \<open>sent\<close> lists
  the requests handed to the network so far; \<open>net\<close> is the outside state.
\<close>

record ('c, 'w) world =
  os_user :: "string option"
  confs :: "'c list"
  sent :: "http_Request list"
  net :: 'w

text \<open>Pointers to a \<^verbatim>\<open>Configuration\<close>: \<open>None\<close> is nil. A parameter passed by value
  is a new variable holding a copy.\<close>

definition new_var :: "'c \<Rightarrow> ('c, 'w) world \<Rightarrow> nat \<times> ('c, 'w) world" where
  "new_var v w = (length (confs w), w\<lparr>confs := confs w @ [v]\<rparr>)"

definition load :: "nat option \<Rightarrow> ('c, 'w) world \<Rightarrow> 'c option" where
  "load p w = (case p of None \<Rightarrow> None
               | Some a \<Rightarrow> if a < length (confs w) then Some (confs w ! a) else None)"

definition store :: "nat option \<Rightarrow> 'c \<Rightarrow> ('c, 'w) world \<Rightarrow> ('c, 'w) world" where
  "store p v w = (case p of None \<Rightarrow> w | Some a \<Rightarrow> w\<lparr>confs := (confs w)[a := v]\<rparr>)"

text \<open>\<^verbatim>\<open>&conf.F\<close>: evaluating it through a nil \<^verbatim>\<open>conf\<close> panics; otherwise it is
  the address of a field, which is not nil.\<close>

definition field_addr :: "nat option \<Rightarrow> string \<Rightarrow> (nat \<times> string) option result" where
  "field_addr p f = (case p of None \<Rightarrow> Panic NilDereference | Some a \<Rightarrow> Return (Some (a, f)))"

text \<open>\<^verbatim>\<open>func (conf *Configuration) GetNameNodeUrl() (*url.URL, error)\<close>, first variant:
  \<^verbatim>\<open>?user.name=\<close> is always appended.\<close>

definition GetNameNodeUrl ::
  "('p, 'w) platform \<Rightarrow> nat option \<Rightarrow> (Configuration, 'w) world
    \<Rightarrow> (URL option \<times> goerror option) result \<times> (Configuration, 'w) world" where
  "GetNameNodeUrl pf conf w =
    (case field_addr conf ''Addr'' of
       Panic x \<Rightarrow> (Panic x, w)
     | Return pAddr \<Rightarrow>
        if pAddr = None
        then (Return (None, Some (ErrorsNew ''Configuration namenode address not set.'')), w)
        else (case load conf w of
           None \<Rightarrow> (Panic NilDereference, w)
         | Some c \<Rightarrow>
            let protocol = (if UseHTTPS c then ''https'' else ''http'');
                urlStr = protocol @ ''://'' @ Addr c @ WebHdfsVer @ BasePath c
            in (case (if field_addr conf ''User'' = Return None \<or> length (User c) = 0
                      then (case os_user w of
                              None \<Rightarrow> Panic NilDereference
                            | Some Username \<Rightarrow> Return (store conf (c\<lparr>User := Username\<rparr>) w))
                      else Return w) of
                  Panic x \<Rightarrow> (Panic x, w)
                | Return w1 \<Rightarrow>
                   (case load conf w1 of
                      None \<Rightarrow> (Panic NilDereference, w1)
                    | Some c1 \<Rightarrow>
                       (case url_Parse pf (urlStr @ ''?user.name='' @ User c1) of
                          Inl err \<Rightarrow> (Return (None, Some (Lib err)), w1)
                        | Inr u \<Rightarrow> (Return (Some u, None), w1))))))"

text \<open>The second variant appends \<^verbatim>\<open>?user.name=\<close> only when the user is not empty.\<close>

definition GetNameNodeUrl_knox ::
  "('p, 'w) platform \<Rightarrow> nat option \<Rightarrow> (Configuration_knox, 'w) world
    \<Rightarrow> (URL option \<times> goerror option) result \<times> (Configuration_knox, 'w) world" where
  "GetNameNodeUrl_knox pf conf w =
    (case field_addr conf ''Addr'' of
       Panic x \<Rightarrow> (Panic x, w)
     | Return pAddr \<Rightarrow>
        if pAddr = None
        then (Return (None, Some (ErrorsNew ''Configuration namenode address not set.'')), w)
        else (case load conf w of
           None \<Rightarrow> (Panic NilDereference, w)
         | Some c \<Rightarrow>
            let scheme = (if EnableHTTPS c then ''https'' else ''http'');
                urlStr = scheme @ ''://'' @ Addr c @ WebHdfsVer @ BasePath c
            in (case (if field_addr conf ''User'' = Return None \<or> length (User c) = 0
                      then (case os_user w of
                              None \<Rightarrow> Panic NilDereference
                            | Some Username \<Rightarrow> Return (store conf (c\<lparr>User := Username\<rparr>) w))
                      else Return w) of
                  Panic x \<Rightarrow> (Panic x, w)
                | Return w1 \<Rightarrow>
                   (case load conf w1 of
                      None \<Rightarrow> (Panic NilDereference, w1)
                    | Some c1 \<Rightarrow>
                       (case url_Parse pf (if User c1 \<noteq> '''' then urlStr @ ''?user.name='' @ User c1
                                           else urlStr) of
                          Inl err \<Rightarrow> (Return (None, Some (Lib err)), w1)
                        | Inr u \<Rightarrow> (Return (Some u, None), w1))))))"

section \<open>fs.go\<close>

text \<open>Modelled from the spec: the declaration of \<^verbatim>\<open>Path\<close> is not under src/; the code
  reads its \<^verbatim>\<open>Name\<close>, the logical remote path.\<close>

record Path =
  Name :: string

definition OP_LISTSTATUS :: string where
  "OP_LISTSTATUS = ''LISTSTATUS''"

text \<open>The block \<^verbatim>\<open>if p != nil { if p.Name[0] == '/' ... }\<close>: indexing byte 0 of an
  empty \<^verbatim>\<open>Name\<close> panics.\<close>

definition append_path :: "URL \<Rightarrow> Path option \<Rightarrow> URL result" where
  "append_path u p =
    (case p of
       None \<Rightarrow> Return u
     | Some pth \<Rightarrow>
        (case Name pth of
           [] \<Rightarrow> Panic IndexOutOfRange
         | c # cs \<Rightarrow>
            if c = CHR ''/'' then Return (u\<lparr>Path := Path u @ Name pth\<rparr>)
            else Return (u\<lparr>Path := Path u @ ''/'' @ Name pth\<rparr>)))"

text \<open>The block \<^verbatim>\<open>if params != nil { for key, val := range *params { q.Add(key, val) } }\<close>.\<close>

definition attach_params :: "Values \<Rightarrow> (string \<times> string) list option \<Rightarrow> Values" where
  "attach_params q params =
    (case params of
       None \<Rightarrow> q
     | Some m \<Rightarrow> fold (\<lambda>(key, val) q'. Values_Add q' key val) m q)"

text \<open>
  \<^verbatim>\<open>func buildRequestUrl(conf Configuration, p *Path, params *map[string]string)\<close>. Both
  variants have the same text; \<open>gnn\<close> is the \<^verbatim>\<open>GetNameNodeUrl\<close> of the variant.
  \<open>conf\<close> is passed by value, so the method runs on the address of the copy. A
  \<^verbatim>\<open>nil\<close> pointer is \<open>None\<close>; the map is the list of its entries (keys distinct) in the
  order the \<^verbatim>\<open>range\<close> loop visits them, an order that does not change the result
  (lemma \<open>attach_params_order\<close>).
\<close>

definition buildRequestUrl_gen ::
  "(('p, 'w) platform \<Rightarrow> nat option \<Rightarrow> ('c, 'w) world
      \<Rightarrow> (URL option \<times> goerror option) result \<times> ('c, 'w) world)
    \<Rightarrow> ('p, 'w) platform \<Rightarrow> 'c \<Rightarrow> Path option \<Rightarrow> (string \<times> string) list option
    \<Rightarrow> ('c, 'w) world \<Rightarrow> (URL option \<times> goerror option) result \<times> ('c, 'w) world" where
  "buildRequestUrl_gen gnn pf conf p params w =
    (case new_var conf w of
       (a, w0) \<Rightarrow>
        (case gnn pf (Some a) w0 of
           (Panic x, w1) \<Rightarrow> (Panic x, w1)
         | (Return (u, Some err), w1) \<Rightarrow> (Return (None, Some err), w1)
         | (Return (None, None), w1) \<Rightarrow> (Panic NilDereference, w1)
         | (Return (Some u, None), w1) \<Rightarrow>
            (case append_path u p of
               Panic x \<Rightarrow> (Panic x, w1)
             | Return u1 \<Rightarrow>
                let q = attach_params (url_ParseQuery pf (RawQuery u1)) params
                in (Return (Some (u1\<lparr>RawQuery := Values_Encode pf q\<rparr>), None), w1))))"

definition buildRequestUrl ::
  "('p, 'w) platform \<Rightarrow> Configuration \<Rightarrow> Path option \<Rightarrow> (string \<times> string) list option
    \<Rightarrow> (Configuration, 'w) world
    \<Rightarrow> (URL option \<times> goerror option) result \<times> (Configuration, 'w) world" where
  "buildRequestUrl = buildRequestUrl_gen GetNameNodeUrl"

definition buildRequestUrl_knox ::
  "('p, 'w) platform \<Rightarrow> Configuration_knox \<Rightarrow> Path option \<Rightarrow> (string \<times> string) list option
    \<Rightarrow> (Configuration_knox, 'w) world
    \<Rightarrow> (URL option \<times> goerror option) result \<times> (Configuration_knox, 'w) world" where
  "buildRequestUrl_knox = buildRequestUrl_gen GetNameNodeUrl_knox"

text \<open>\<^verbatim>\<open>HdfsJsonData{}\<close>, the zero value.\<close>

definition HdfsJsonData_zero :: "('p, 'w) platform \<Rightarrow> 'p HdfsJsonData" where
  "HdfsJsonData_zero pf =
    \<lparr>Payload = payload_zero pf,
     RemoteException = \<lparr>Exception = '''', Message = '''', JavaClassName = ''''\<rparr>\<rparr>"

text \<open>A byte slice: \<open>None\<close> is the nil slice, whose length is 0.\<close>

definition len :: "string option \<Rightarrow> nat" where
  "len data = (case data of None \<Rightarrow> 0 | Some bs \<Rightarrow> length bs)"

definition bytes :: "string option \<Rightarrow> string" where
  "bytes data = (case data of None \<Rightarrow> [] | Some bs \<Rightarrow> bs)"

text \<open>\<^verbatim>\<open>func makeHdfsData(data []byte) (HdfsJsonData, error)\<close>, the same in both
  variants. \<^verbatim>\<open>json.Unmarshal\<close> fills the zero-valued variable \<^verbatim>\<open>jsonData\<close>.\<close>

definition makeHdfsData ::
  "('p, 'w) platform \<Rightarrow> string option \<Rightarrow> ('p HdfsJsonData \<times> goerror option) result" where
  "makeHdfsData pf data =
    (if len data = 0 \<or> data = None then Return (HdfsJsonData_zero pf, None)
     else (case json_Unmarshal pf (bytes data) (HdfsJsonData_zero pf) of
             (jsonData, Some jsonErr) \<Rightarrow> Return (HdfsJsonData_zero pf, Some (Lib jsonErr))
           | (jsonData, None) \<Rightarrow>
              if Exception (RemoteException jsonData) \<noteq> ''''
              then Return (HdfsJsonData_zero pf, Some (RemoteError (RemoteException jsonData)))
              else Return (jsonData, None)))"

text \<open>\<^verbatim>\<open>func responseToHdfsData(rsp *http.Response) (HdfsJsonData, error)\<close>.
  \<^verbatim>\<open>ioutil.ReadAll\<close> returns a slice that is not nil.\<close>

definition responseToHdfsData ::
  "('p, 'w) platform \<Rightarrow> http_Response \<Rightarrow> ('p HdfsJsonData \<times> goerror option) result" where
  "responseToHdfsData pf rsp =
    (case Body rsp of
       (body, Some err) \<Rightarrow> Return (HdfsJsonData_zero pf, Some (Lib err))
     | (body, None) \<Rightarrow> makeHdfsData pf (Some body))"

text \<open>\<^verbatim>\<open>client.Do\<close>: the one place where the program reaches the network. The request
  is recorded in \<open>sent\<close>; the answer and the new outside state are the platform's.\<close>

definition client_Do ::
  "('p, 'w) platform \<Rightarrow> http_Client \<Rightarrow> http_Request \<Rightarrow> ('c, 'w) world
    \<Rightarrow> (liberror + http_Response) \<times> ('c, 'w) world" where
  "client_Do pf cl req w =
    (case round_trip pf cl req (net w) of
       (r, n) \<Rightarrow> (r, w\<lparr>sent := sent w @ [req], net := n\<rparr>))"

definition StatusOK :: int where
  "StatusOK = 200"

text \<open>\<^verbatim>\<open>func requestHdfsData(client http.Client, req http.Request) (HdfsJsonData, error)\<close>,
  first variant: any status but 200 is the error
  \<^verbatim>\<open>fmt.Errorf("%w : (%d) %s", errBadStatusCode, rsp.StatusCode, rsp.Status)\<close>.\<close>

definition requestHdfsData ::
  "('p, 'w) platform \<Rightarrow> http_Client \<Rightarrow> http_Request \<Rightarrow> ('c, 'w) world
    \<Rightarrow> ('p HdfsJsonData \<times> goerror option) result \<times> ('c, 'w) world" where
  "requestHdfsData pf cl req w =
    (case client_Do pf cl req w of
       (Inl err, w1) \<Rightarrow> (Return (HdfsJsonData_zero pf, Some (Lib err)), w1)
     | (Inr rsp, w1) \<Rightarrow>
        if StatusCode rsp \<noteq> StatusOK
        then (Return (HdfsJsonData_zero pf,
                Some (ErrorfW errBadStatusCode
                        ('' : ('' @ fmt_d (StatusCode rsp) @ '') '' @ Status rsp))), w1)
        else (responseToHdfsData pf rsp, w1))"

text \<open>The second variant decodes the body whatever the status is.\<close>

definition requestHdfsData_knox ::
  "('p, 'w) platform \<Rightarrow> http_Client \<Rightarrow> http_Request \<Rightarrow> ('c, 'w) world
    \<Rightarrow> ('p HdfsJsonData \<times> goerror option) result \<times> ('c, 'w) world" where
  "requestHdfsData_knox pf cl req w =
    (case client_Do pf cl req w of
       (Inl err, w1) \<Rightarrow> (Return (HdfsJsonData_zero pf, Some (Lib err)), w1)
     | (Inr rsp, w1) \<Rightarrow> (responseToHdfsData pf rsp, w1))"

subsection \<open>The session of the second variant\<close>

record FileSystem =
  Config :: Configuration_knox
  client :: http_Client
  transport :: http_Transport

definition SetBasicAuth :: "http_Request \<Rightarrow> string \<Rightarrow> string \<Rightarrow> http_Request" where
  "SetBasicAuth req username password = req\<lparr>BasicAuth := Some (username, password)\<rparr>"

text \<open>The loop over \<^verbatim>\<open>fs.client.Jar.Cookies(baseURL)\<close> that looks for the cookie
  \<^verbatim>\<open>JSESSIONID\<close> and breaks at the first one.\<close>

fun hasSessionCookie :: "http_Cookie list \<Rightarrow> bool" where
  "hasSessionCookie [] = False"
| "hasSessionCookie (cookie # cookies) =
     (if CookieName cookie = ''JSESSIONID'' then True else hasSessionCookie cookies)"

text \<open>\<^verbatim>\<open>func (fs *FileSystem) auth() error\<close>.\<close>

definition auth ::
  "('p, 'w) platform \<Rightarrow> FileSystem \<Rightarrow> (Configuration_knox, 'w) world
    \<Rightarrow> goerror option result \<times> (Configuration_knox, 'w) world" where
  "auth pf fs w =
    (case buildRequestUrl_knox pf (Config fs) (Some \<lparr>Name = ''/''\<rparr>)
            (Some [(''op'', OP_LISTSTATUS)]) w of
       (Panic x, w1) \<Rightarrow> (Panic x, w1)
     | (Return (u, Some err), w1) \<Rightarrow> (Return (Some (ErrorfV ''buildRequestUrl: '' err)), w1)
     | (Return (None, None), w1) \<Rightarrow> (Panic NilDereference, w1)
     | (Return (Some baseURL, None), w1) \<Rightarrow>
        (case http_NewRequest pf ''GET'' (url_String pf baseURL) of
           Inl err \<Rightarrow>
            (Return (Some (ErrorfV (''http.NewRequest('' @ url_String pf baseURL @ ''): '')
                             (Lib err))), w1)
         | Inr req0 \<Rightarrow>
            let req = SetBasicAuth req0 (User (Config fs)) (Password (Config fs))
            in (case client_Do pf (client fs) req w1 of
                  (Inl err, w2) \<Rightarrow>
                   (Return (Some (ErrorfV ''fs.client.Get(baseURL.String()): '' (Lib err))), w2)
                | (Inr resp, w2) \<Rightarrow>
                   if StatusCode resp > 299
                   then (Return (Some (Errorf (''response of fs.client.Get(''
                                   @ url_String pf (ReqURL req) @ ''): ''
                                   @ httputil_DumpResponse pf resp @ '' ''))), w2)
                   else if hasSessionCookie (jar_Cookies pf (net w2) baseURL)
                   then (Return None, w2)
                   else (Return (Some (Errorf ''session cookie not found in jar'')), w2))))"

text \<open>The first statements of \<^verbatim>\<open>NewFileSystem\<close>: the struct with the configuration, the
  transport with the configuration's timeouts and idle-connection bound, and the client on
  that transport.\<close>

definition init_fs :: "Configuration_knox \<Rightarrow> FileSystem" where
  "init_fs conf =
    (let tr = \<lparr>DialTimeout = ConnectionTimeout conf,
               TransportMaxIdleConnsPerHost = MaxIdleConnsPerHost conf,
               TransportResponseHeaderTimeout = ResponseHeaderTimeout conf\<rparr>
     in \<lparr>Config = conf, client = \<lparr>Transport = tr\<rparr>, transport = tr\<rparr>)"

text \<open>
  \<^verbatim>\<open>func NewFileSystem(conf Configuration) (*FileSystem, error)\<close>, second variant. After
  a successful handshake the code starts a goroutine that repeats \<^verbatim>\<open>fs.auth()\<close> every
  minute; it runs after the constructor has returned and is not part of this function's
  result.
\<close>

definition NewFileSystem_knox ::
  "('p, 'w) platform \<Rightarrow> Configuration_knox \<Rightarrow> (Configuration_knox, 'w) world
    \<Rightarrow> (FileSystem option \<times> goerror option) result \<times> (Configuration_knox, 'w) world" where
  "NewFileSystem_knox pf conf w =
    (let fs = init_fs conf
     in (case cookiejar_New pf (net w) of
           Inl err \<Rightarrow> (Return (None, Some (ErrorfV ''cookiejar.New: '' (Lib err))), w)
         | Inr fresh \<Rightarrow>
            let w0 = w\<lparr>net := fresh\<rparr>
            in if EnableKnoxAuth conf
               then (case auth pf fs w0 of
                       (Panic x, w1) \<Rightarrow> (Panic x, w1)
                     | (Return (Some err), w1) \<Rightarrow>
                        (Return (None, Some (ErrorfV ''fs.Auth: '' err)), w1)
                     | (Return None, w1) \<Rightarrow> (Return (Some fs, None), w1))
               else (Return (Some fs, None), w0)))"

section \<open>A platform to run the definitions on\<close>

text \<open>
  The theorems below hold for every platform. To evaluate the definitions on concrete
  inputs, \<open>test_platform\<close> stands in for the library and the remote service, as a test
  double would: a URL is cut at \<^verbatim>\<open>://\<close>, the first \<^verbatim>\<open>/\<close> and the \<^verbatim>\<open>?\<close> and is refused
  when it holds a space; a query keeps its \<^verbatim>\<open>user.name\<close>; the encoding writes the
  keys \<^verbatim>\<open>op\<close> and \<^verbatim>\<open>user.name\<close> in this order; the remote service answers from a
  script of replies, each with the cookies it sets; the JSON decoder knows the three bodies
  it is given here. On the inputs used below they agree with what the Go library does.
\<close>

definition split_at :: "char \<Rightarrow> string \<Rightarrow> string \<times> string" where
  "split_at c s = (takeWhile (\<lambda>x. x \<noteq> c) s, drop 1 (dropWhile (\<lambda>x. x \<noteq> c) s))"

definition test_url_Parse :: "string \<Rightarrow> liberror + URL" where
  "test_url_Parse s =
    (if CHR '' '' \<in> set s then Inl (LibError ''invalid character in host name'')
     else (case split_at CHR '':'' s of
             (scheme, rest) \<Rightarrow>
              let rest' = drop 2 rest;
                  host = takeWhile (\<lambda>x. x \<noteq> CHR ''/'' \<and> x \<noteq> CHR ''?'') rest';
                  tail = dropWhile (\<lambda>x. x \<noteq> CHR ''/'' \<and> x \<noteq> CHR ''?'') rest'
              in (case split_at CHR ''?'' tail of
                    (path, query) \<Rightarrow>
                     Inr \<lparr>Scheme = scheme, Host = host, Path = path, RawQuery = query\<rparr>)))"

definition test_url_ParseQuery :: "string \<Rightarrow> Values" where
  "test_url_ParseQuery raw =
    (\<lambda>key. if key = ''user.name'' \<and> take 10 raw = ''user.name='' then [drop 10 raw] else [])"

fun join_amp :: "string list \<Rightarrow> string" where
  "join_amp [] = []"
| "join_amp [x] = x"
| "join_amp (x # y # ys) = x @ ''&'' @ join_amp (y # ys)"

definition test_Values_Encode :: "Values \<Rightarrow> string" where
  "test_Values_Encode q =
    join_amp (map (\<lambda>v. ''op='' @ v) (q ''op'') @ map (\<lambda>v. ''user.name='' @ v) (q ''user.name''))"

definition test_url_String :: "URL \<Rightarrow> string" where
  "test_url_String u =
    Scheme u @ ''://'' @ Host u @ Path u @ (if RawQuery u = '''' then '''' else ''?'' @ RawQuery u)"

definition test_http_NewRequest :: "string \<Rightarrow> string \<Rightarrow> liberror + http_Request" where
  "test_http_NewRequest m s =
    (case test_url_Parse s of
       Inl e \<Rightarrow> Inl e
     | Inr u \<Rightarrow> Inr \<lparr>Method = m, ReqURL = u, BasicAuth = None\<rparr>)"

record test_net =
  replies :: "(liberror + http_Response \<times> http_Cookie list) list"
  jar :: "http_Cookie list"

definition test_round_trip ::
  "http_Client \<Rightarrow> http_Request \<Rightarrow> test_net \<Rightarrow> (liberror + http_Response) \<times> test_net" where
  "test_round_trip cl req n =
    (case replies n of
       [] \<Rightarrow> (Inl (LibError ''connection refused''), n)
     | r # rs \<Rightarrow>
        (case r of
           Inl e \<Rightarrow> (Inl e, n\<lparr>replies := rs\<rparr>)
         | Inr (rsp, cs) \<Rightarrow> (Inr rsp, n\<lparr>replies := rs, jar := jar n @ cs\<rparr>)))"

definition body_true :: string where
  \<open>body_true = ''{"boolean":true}''\<close>

definition body_exception :: string where
  \<open>body_exception =
    ''{"RemoteException":{"exception":"FileNotFoundException","message":"m","javaClassName":"c"}}''\<close>

definition body_truncated :: string where
  \<open>body_truncated = ''{"Remote''\<close>

definition test_json_Unmarshal ::
  "string \<Rightarrow> bool HdfsJsonData \<Rightarrow> bool HdfsJsonData \<times> liberror option" where
  "test_json_Unmarshal data v =
    (if data = body_true then (v\<lparr>Payload := True\<rparr>, None)
     else if data = body_exception
     then (v\<lparr>RemoteException :=
               \<lparr>Exception = ''FileNotFoundException'', Message = ''m'', JavaClassName = ''c''\<rparr>\<rparr>,
           None)
     else (v, Some (LibError ''unexpected end of JSON input'')))"

definition test_platform :: "(bool, test_net) platform" where
  "test_platform =
    \<lparr>url_Parse = test_url_Parse,
     url_ParseQuery = test_url_ParseQuery,
     Values_Encode = test_Values_Encode,
     url_String = test_url_String,
     http_NewRequest = test_http_NewRequest,
     round_trip = test_round_trip,
     cookiejar_New = (\<lambda>n. Inr (n\<lparr>jar := []\<rparr>)),
     jar_Cookies = (\<lambda>n u. jar n),
     httputil_DumpResponse = (\<lambda>rsp. ''HTTP/1.1 '' @ Status rsp),
     json_Unmarshal = test_json_Unmarshal,
     payload_zero = False\<rparr>"

text \<open>Configurations, a client and states for the examples.\<close>

definition test_conf :: "string \<Rightarrow> string \<Rightarrow> string \<Rightarrow> Configuration" where
  "test_conf addr base usr =
    \<lparr>Addr = addr, BasePath = base, User = usr, Password = '''',
     ConnectionTimeout = 17000000000, DisableKeepAlives = False, DisableCompression = True,
     ResponseHeaderTimeout = 17000000000, MaxIdleConnsPerHost = 0,
     UseBaseAuth = False, UseHTTPS = False, TLSClientSkipSecurity = False,
     Retries = (\<lambda>_. [])\<rparr>"

definition test_conf_knox :: "string \<Rightarrow> string \<Rightarrow> string \<Rightarrow> bool \<Rightarrow> Configuration_knox" where
  "test_conf_knox addr base usr knox =
    \<lparr>Addr = addr, BasePath = base, User = usr, Password = ''secret'',
     ConnectionTimeout = 17000000000, DisableKeepAlives = False, DisableCompression = True,
     ResponseHeaderTimeout = 17000000000, MaxIdleConnsPerHost = 0,
     EnableHTTPS = False, EnableKnoxAuth = knox\<rparr>"

definition test_client :: http_Client where
  "test_client =
    \<lparr>Transport = \<lparr>DialTimeout = 17000000000, TransportMaxIdleConnsPerHost = 0,
                  TransportResponseHeaderTimeout = 17000000000\<rparr>\<rparr>"

definition test_world ::
  "string option \<Rightarrow> (liberror + http_Response \<times> http_Cookie list) list \<Rightarrow> ('c, test_net) world" where
  "test_world usr rs = \<lparr>os_user = usr, confs = [], sent = [], net = \<lparr>replies = rs, jar = []\<rparr>\<rparr>"

definition test_request :: http_Request where
  "test_request =
    \<lparr>Method = ''GET'',
     ReqURL = \<lparr>Scheme = ''http'', Host = ''nn:50070'', Path = ''/webhdfs/v1/tmp'',
               RawQuery = ''op=GETFILESTATUS&user.name=hdfs''\<rparr>,
     BasicAuth = None\<rparr>"

definition reply :: "int \<Rightarrow> string \<Rightarrow> string \<Rightarrow> http_Response" where
  "reply code st body = \<lparr>StatusCode = code, Status = st, Body = (body, None)\<rparr>"

section \<open>Decoding a response body\<close>

text \<open>
  C7. \<^verbatim>\<open>makeHdfsData\<close> applied to the nil slice or to an empty slice returns the empty
  envelope (the zero value, with no remote exception in it) and a nil error.
\<close>

theorem makeHdfsData_empty_or_nil:
  "makeHdfsData pf None = Return (HdfsJsonData_zero pf, None)
   \<and> makeHdfsData pf (Some []) = Return (HdfsJsonData_zero pf, None)
   \<and> Exception (RemoteException (HdfsJsonData_zero pf)) = ''''"
proof -
  have nil: "makeHdfsData pf None = Return (HdfsJsonData_zero pf, None)"
    by (simp add: makeHdfsData_def)
  have empty: "makeHdfsData pf (Some []) = Return (HdfsJsonData_zero pf, None)"
    by (simp add: makeHdfsData_def len_def)
  have "Exception (RemoteException (HdfsJsonData_zero pf)) = ''''"
    by (simp add: HdfsJsonData_zero_def)
  with nil empty show ?thesis by simp
qed

lemma makeHdfsData_returns: "\<exists>v e. makeHdfsData pf d = Return (v, e)"
  by (simp add: makeHdfsData_def split: prod.splits option.splits)

lemma makeHdfsData_outcomes:
  assumes "makeHdfsData pf d = Return (v, e)"
  shows "(e = None \<and> Exception (RemoteException v) = '''')
         \<or> (e \<noteq> None \<and> v = HdfsJsonData_zero pf)"
  using assms
  by (auto simp: makeHdfsData_def HdfsJsonData_zero_def
           split: prod.splits option.splits if_splits)

lemma makeHdfsData_nil_error:
  "(makeHdfsData pf (Some body) = Return (v, None))
   = (body = [] \<and> v = HdfsJsonData_zero pf
      \<or> body \<noteq> [] \<and> json_Unmarshal pf body (HdfsJsonData_zero pf) = (v, None)
          \<and> Exception (RemoteException v) = '''')"
  by (auto simp: makeHdfsData_def len_def bytes_def split: prod.splits option.splits)

lemma unmarshal_exception:
  "json_Unmarshal test_platform body_exception (HdfsJsonData_zero test_platform)
     = (\<lparr>Payload = False, RemoteException =
          \<lparr>Exception = ''FileNotFoundException'', Message = ''m'', JavaClassName = ''c''\<rparr>\<rparr>,
        None)"
  by (simp add: test_platform_def test_json_Unmarshal_def HdfsJsonData_zero_def
        body_exception_def body_true_def)

lemma unmarshal_truncated:
  "json_Unmarshal test_platform body_truncated (HdfsJsonData_zero test_platform)
     = (HdfsJsonData_zero test_platform, Some (LibError ''unexpected end of JSON input''))"
  by (simp add: test_platform_def test_json_Unmarshal_def body_exception_def body_true_def
        body_truncated_def)

text \<open>
  C6. When the parsed body has a non-empty exception class in its remote-exception field,
  \<^verbatim>\<open>makeHdfsData\<close> returns that remote exception as the error together with the zero-value
  envelope, and not the parsed envelope with a nil error. The two outcomes exclude each
  other for every input: a nil error comes with an envelope that holds no remote
  exception, and an error comes with the zero-value envelope.
\<close>

theorem makeHdfsData_remote_exception:
  assumes "data \<noteq> []"
    and "json_Unmarshal pf data (HdfsJsonData_zero pf) = (jsonData, None)"
    and "Exception (RemoteException jsonData) \<noteq> ''''"
  shows "makeHdfsData pf (Some data)
           = Return (HdfsJsonData_zero pf, Some (RemoteError (RemoteException jsonData)))
         \<and> makeHdfsData pf (Some data) \<noteq> Return (jsonData, None)
         \<and> (\<forall>d v e. makeHdfsData pf d = Return (v, e) \<longrightarrow>
               (e = None \<and> Exception (RemoteException v) = '''')
               \<or> (e \<noteq> None \<and> v = HdfsJsonData_zero pf))"
proof -
  have "makeHdfsData pf (Some data)
           = Return (HdfsJsonData_zero pf, Some (RemoteError (RemoteException jsonData)))"
    using assms by (simp add: makeHdfsData_def len_def bytes_def)
  then show ?thesis
    using makeHdfsData_outcomes by auto
qed

theorem makeHdfsData_remote_exception_witness:
  "body_exception \<noteq> []
   \<and> json_Unmarshal test_platform body_exception (HdfsJsonData_zero test_platform)
       = (\<lparr>Payload = False, RemoteException =
            \<lparr>Exception = ''FileNotFoundException'', Message = ''m'', JavaClassName = ''c''\<rparr>\<rparr>,
          None)
   \<and> makeHdfsData test_platform (Some body_exception)
       = Return (HdfsJsonData_zero test_platform,
           Some (RemoteError
             \<lparr>Exception = ''FileNotFoundException'', Message = ''m'', JavaClassName = ''c''\<rparr>))"
proof -
  have ne: "body_exception \<noteq> []" by (simp add: body_exception_def)
  have ex: "Exception (RemoteException \<lparr>Payload = False, RemoteException =
          \<lparr>Exception = ''FileNotFoundException'', Message = ''m'', JavaClassName = ''c''\<rparr>\<rparr>)
        \<noteq> ''''"
    by simp
  from makeHdfsData_remote_exception [OF ne unmarshal_exception ex]
  show ?thesis using ne unmarshal_exception by simp
qed

text \<open>
  C8. When the body is not empty and \<^verbatim>\<open>json.Unmarshal\<close> refuses it (it is not JSON of
  the envelope's shape), \<^verbatim>\<open>makeHdfsData\<close> returns the decoder's error with the zero-value
  envelope; and for every byte sequence, nil included, \<^verbatim>\<open>makeHdfsData\<close> returns: it has
  no panic.
\<close>

theorem makeHdfsData_malformed:
  assumes "data \<noteq> []"
    and "json_Unmarshal pf data (HdfsJsonData_zero pf) = (jsonData, Some jsonErr)"
  shows "makeHdfsData pf (Some data) = Return (HdfsJsonData_zero pf, Some (Lib jsonErr))
         \<and> (\<forall>d. \<exists>v e. makeHdfsData pf d = Return (v, e))"
proof -
  have "makeHdfsData pf (Some data) = Return (HdfsJsonData_zero pf, Some (Lib jsonErr))"
    using assms by (simp add: makeHdfsData_def len_def bytes_def)
  then show ?thesis
    using makeHdfsData_returns by blast
qed

theorem makeHdfsData_malformed_witness:
  "body_truncated \<noteq> []
   \<and> json_Unmarshal test_platform body_truncated (HdfsJsonData_zero test_platform)
       = (HdfsJsonData_zero test_platform, Some (LibError ''unexpected end of JSON input''))
   \<and> makeHdfsData test_platform (Some body_truncated)
       = Return (HdfsJsonData_zero test_platform,
           Some (Lib (LibError ''unexpected end of JSON input'')))"
proof -
  have ne: "body_truncated \<noteq> []" by (simp add: body_truncated_def)
  from makeHdfsData_malformed [OF ne unmarshal_truncated]
  show ?thesis using ne unmarshal_truncated by simp
qed

section \<open>Dispatching a request\<close>

lemma client_Do_eq:
  "round_trip pf cl req (net w) = (r, n)
   \<Longrightarrow> client_Do pf cl req w = (r, w\<lparr>sent := sent w @ [req], net := n\<rparr>)"
  by (simp add: client_Do_def)

lemma responseToHdfsData_returns: "\<exists>v e. responseToHdfsData pf rsp = Return (v, e)"
  using makeHdfsData_returns [of pf]
  by (auto simp: responseToHdfsData_def split: prod.splits option.splits)

lemma responseToHdfsData_outcomes:
  assumes "responseToHdfsData pf rsp = Return (v, e)"
  shows "(e = None \<and> Exception (RemoteException v) = '''')
         \<or> (e \<noteq> None \<and> v = HdfsJsonData_zero pf)"
  using assms makeHdfsData_outcomes [of pf _ v e]
  by (auto simp: responseToHdfsData_def split: prod.splits option.splits)

lemma responseToHdfsData_nil_error:
  "(responseToHdfsData pf rsp = Return (v, None))
   = (\<exists>body. Body rsp = (body, None) \<and> makeHdfsData pf (Some body) = Return (v, None))"
  by (cases "Body rsp") (auto simp: responseToHdfsData_def split: option.splits)

lemma responseToHdfsData_not_protocol:
  assumes "responseToHdfsData pf rsp = Return (v, Some e)"
  shows "\<not> errors_Is e errBadStatusCode"
  using assms
  by (auto simp: responseToHdfsData_def makeHdfsData_def
           split: prod.splits option.splits if_splits)

lemma responseToHdfsData_decoded:
  "(responseToHdfsData pf rsp = Return (v, None))
   = (\<exists>body. Body rsp = (body, None)
        \<and> (body = [] \<and> v = HdfsJsonData_zero pf
            \<or> body \<noteq> [] \<and> json_Unmarshal pf body (HdfsJsonData_zero pf) = (v, None)
                \<and> Exception (RemoteException v) = ''''))"
  unfolding responseToHdfsData_nil_error makeHdfsData_nil_error ..


lemma unmarshal_true:
  "json_Unmarshal test_platform body_true (HdfsJsonData_zero test_platform)
     = (\<lparr>Payload = True, RemoteException =
          \<lparr>Exception = '''', Message = '''', JavaClassName = ''''\<rparr>\<rparr>, None)"
  by (simp add: test_platform_def test_json_Unmarshal_def HdfsJsonData_zero_def)


lemma test_round_trip_one:
  "round_trip test_platform test_client test_request
      (net (test_world None [Inr (rsp, cs)] :: (Configuration, test_net) world))
     = (Inr rsp, \<lparr>replies = [], jar = cs\<rparr>)"
  by (simp add: test_platform_def test_round_trip_def test_world_def)


text \<open>
  C5. For every client, request and state, \<^verbatim>\<open>requestHdfsData\<close> returns, in one of two
  ways. Either the error is nil and the envelope is the decoded payload: the client
  returned a response with status 200 whose body was read to the end, and the envelope is
  the zero value when the body is empty and otherwise what \<^verbatim>\<open>json.Unmarshal\<close> made of the
  body, with no remote exception in it. Or there is an error and the envelope is the zero
  value. The error is nil exactly when every step succeeded: a response came, its status is
  200, its body was read, and the body is empty or decodes without error to an envelope with
  no remote exception. So a failing step always shows as an error.
\<close>

theorem requestHdfsData_payload_or_error:
  "\<exists>v e w'. requestHdfsData pf cl req w = (Return (v, e), w')
     \<and> ((e = None
          \<and> (\<exists>rsp n body. round_trip pf cl req (net w) = (Inr rsp, n)
                \<and> StatusCode rsp = StatusOK \<and> Body rsp = (body, None)
                \<and> (body = [] \<and> v = HdfsJsonData_zero pf
                    \<or> body \<noteq> []
                       \<and> json_Unmarshal pf body (HdfsJsonData_zero pf) = (v, None)
                       \<and> Exception (RemoteException v) = '''')))
         \<or> (e \<noteq> None \<and> v = HdfsJsonData_zero pf))
     \<and> (e = None) =
         (\<exists>rsp n body. round_trip pf cl req (net w) = (Inr rsp, n)
            \<and> StatusCode rsp = StatusOK \<and> Body rsp = (body, None)
            \<and> (body = []
                \<or> (\<exists>j. json_Unmarshal pf body (HdfsJsonData_zero pf) = (j, None)
                       \<and> Exception (RemoteException j) = '''')))"
proof -
  obtain r n where rt: "round_trip pf cl req (net w) = (r, n)"
    by (cases "round_trip pf cl req (net w)")
  let ?w1 = "w\<lparr>sent := sent w @ [req], net := n\<rparr>"
  have cd: "client_Do pf cl req w = (r, ?w1)"
    using rt by (rule client_Do_eq)
  show ?thesis
  proof (cases r)
    case (Inl err)
    then have "requestHdfsData pf cl req w = (Return (HdfsJsonData_zero pf, Some (Lib err)), ?w1)"
      using cd by (simp add: requestHdfsData_def)
    then show ?thesis using rt Inl by auto
  next
    case (Inr rsp)
    show ?thesis
    proof (cases "StatusCode rsp = StatusOK")
      case False
      then have "requestHdfsData pf cl req w =
          (Return (HdfsJsonData_zero pf,
             Some (ErrorfW errBadStatusCode
                     ('' : ('' @ fmt_d (StatusCode rsp) @ '') '' @ Status rsp))), ?w1)"
        using cd Inr by (simp add: requestHdfsData_def)
      then show ?thesis using rt Inr False by auto
    next
      case True
      obtain v e where re: "responseToHdfsData pf rsp = Return (v, e)"
        using responseToHdfsData_returns by blast
      have req_eq: "requestHdfsData pf cl req w = (Return (v, e), ?w1)"
        using cd Inr True re by (simp add: requestHdfsData_def)
      have zero: "e \<noteq> None \<Longrightarrow> v = HdfsJsonData_zero pf"
        using responseToHdfsData_outcomes [OF re] by auto
      have dec: "e = None \<Longrightarrow>
          \<exists>body. Body rsp = (body, None)
            \<and> (body = [] \<and> v = HdfsJsonData_zero pf
                \<or> body \<noteq> [] \<and> json_Unmarshal pf body (HdfsJsonData_zero pf) = (v, None)
                    \<and> Exception (RemoteException v) = '''')"
        using re by (simp add: responseToHdfsData_decoded)
      have ok: "(e = None) =
         (\<exists>body. Body rsp = (body, None)
            \<and> (body = []
                \<or> (\<exists>j. json_Unmarshal pf body (HdfsJsonData_zero pf) = (j, None)
                       \<and> Exception (RemoteException j) = '''')))"
      proof
        assume "e = None"
        from dec [OF this]
        show "\<exists>body. Body rsp = (body, None)
            \<and> (body = []
                \<or> (\<exists>j. json_Unmarshal pf body (HdfsJsonData_zero pf) = (j, None)
                       \<and> Exception (RemoteException j) = ''''))"
          by blast
      next
        assume "\<exists>body. Body rsp = (body, None)
            \<and> (body = []
                \<or> (\<exists>j. json_Unmarshal pf body (HdfsJsonData_zero pf) = (j, None)
                       \<and> Exception (RemoteException j) = ''''))"
        then obtain body where b: "Body rsp = (body, None)"
          and c: "body = [] \<or> (\<exists>j. json_Unmarshal pf body (HdfsJsonData_zero pf) = (j, None)
                       \<and> Exception (RemoteException j) = '''')"
          by blast
        from c have "\<exists>v'. makeHdfsData pf (Some body) = Return (v', None)"
          unfolding makeHdfsData_nil_error by (cases "body = []") auto
        then have "\<exists>v'. responseToHdfsData pf rsp = Return (v', None)"
          using b by (simp add: responseToHdfsData_def)
        then show "e = None" using re by auto
      qed
      show ?thesis
      proof (cases "e = None")
        case nil: True
        from dec [OF nil] obtain body where b: "Body rsp = (body, None)"
          and d: "body = [] \<and> v = HdfsJsonData_zero pf
                  \<or> body \<noteq> [] \<and> json_Unmarshal pf body (HdfsJsonData_zero pf) = (v, None)
                      \<and> Exception (RemoteException v) = ''''"
          by blast
        have first: "e = None
          \<and> (\<exists>rsp n body. round_trip pf cl req (net w) = (Inr rsp, n)
                \<and> StatusCode rsp = StatusOK \<and> Body rsp = (body, None)
                \<and> (body = [] \<and> v = HdfsJsonData_zero pf
                    \<or> body \<noteq> []
                       \<and> json_Unmarshal pf body (HdfsJsonData_zero pf) = (v, None)
                       \<and> Exception (RemoteException v) = ''''))"
          using nil rt Inr \<open>StatusCode rsp = StatusOK\<close> b d by blast
        have third: "(e = None) =
         (\<exists>rsp n body. round_trip pf cl req (net w) = (Inr rsp, n)
            \<and> StatusCode rsp = StatusOK \<and> Body rsp = (body, None)
            \<and> (body = []
                \<or> (\<exists>j. json_Unmarshal pf body (HdfsJsonData_zero pf) = (j, None)
                       \<and> Exception (RemoteException j) = '''')))"
          using ok rt Inr \<open>StatusCode rsp = StatusOK\<close> by auto
        from req_eq first third show ?thesis by blast
      next
        case False
        have second: "e \<noteq> None \<and> v = HdfsJsonData_zero pf"
          using False zero by simp
        have third: "(e = None) =
         (\<exists>rsp n body. round_trip pf cl req (net w) = (Inr rsp, n)
            \<and> StatusCode rsp = StatusOK \<and> Body rsp = (body, None)
            \<and> (body = []
                \<or> (\<exists>j. json_Unmarshal pf body (HdfsJsonData_zero pf) = (j, None)
                       \<and> Exception (RemoteException j) = '''')))"
          using ok rt Inr \<open>StatusCode rsp = StatusOK\<close> by auto
        from req_eq second third show ?thesis by blast
      qed
    qed
  qed
qed


theorem requestHdfsData_payload_or_error_witness:
  "fst (requestHdfsData test_platform test_client test_request
          (test_world None [Inr (reply 200 ''200 OK'' body_true, [])]
             :: (Configuration, test_net) world))
     = Return (\<lparr>Payload = True, RemoteException =
                  \<lparr>Exception = '''', Message = '''', JavaClassName = ''''\<rparr>\<rparr>, None)
   \<and> \<lparr>Payload = True, RemoteException =
         \<lparr>Exception = '''', Message = '''', JavaClassName = ''''\<rparr>\<rparr>
       \<noteq> HdfsJsonData_zero test_platform"
proof -
  let ?w = "test_world None [Inr (reply 200 ''200 OK'' body_true, [])]
              :: (Configuration, test_net) world"
  let ?j = "\<lparr>Payload = True, RemoteException =
              \<lparr>Exception = '''', Message = '''', JavaClassName = ''''\<rparr>\<rparr>"
  have ne: "body_true \<noteq> []" by (simp add: body_true_def)
  have rt: "round_trip test_platform test_client test_request (net ?w)
              = (Inr (reply 200 ''200 OK'' body_true), \<lparr>replies = [], jar = []\<rparr>)"
    by (rule test_round_trip_one)
  have st: "StatusCode (reply 200 ''200 OK'' body_true) = StatusOK"
    and bd: "Body (reply 200 ''200 OK'' body_true) = (body_true, None)"
    by (simp_all add: reply_def StatusOK_def)
  from requestHdfsData_payload_or_error [of test_platform test_client test_request ?w]
  obtain v e w' where r: "requestHdfsData test_platform test_client test_request ?w
                            = (Return (v, e), w')"
    and out: "(e = None
          \<and> (\<exists>rsp n body. round_trip test_platform test_client test_request (net ?w) = (Inr rsp, n)
                \<and> StatusCode rsp = StatusOK \<and> Body rsp = (body, None)
                \<and> (body = [] \<and> v = HdfsJsonData_zero test_platform
                    \<or> body \<noteq> []
                       \<and> json_Unmarshal test_platform body (HdfsJsonData_zero test_platform)
                            = (v, None)
                       \<and> Exception (RemoteException v) = '''')))
         \<or> (e \<noteq> None \<and> v = HdfsJsonData_zero test_platform)"
    and iff: "(e = None) =
         (\<exists>rsp n body. round_trip test_platform test_client test_request (net ?w) = (Inr rsp, n)
            \<and> StatusCode rsp = StatusOK \<and> Body rsp = (body, None)
            \<and> (body = []
                \<or> (\<exists>j. json_Unmarshal test_platform body (HdfsJsonData_zero test_platform)
                            = (j, None)
                       \<and> Exception (RemoteException j) = '''')))"
    by blast
  have "Exception (RemoteException ?j) = ''''" by simp
  then have e: "e = None"
    unfolding iff using rt st bd unmarshal_true by blast
  with out obtain rsp n body
    where "round_trip test_platform test_client test_request (net ?w) = (Inr rsp, n)"
      and "Body rsp = (body, None)"
      and d: "body = [] \<and> v = HdfsJsonData_zero test_platform
              \<or> body \<noteq> []
                 \<and> json_Unmarshal test_platform body (HdfsJsonData_zero test_platform) = (v, None)"
    by blast
  then have "body = body_true" using rt bd by simp
  with d ne unmarshal_true have "v = ?j" by simp
  with r e have res: "fst (requestHdfsData test_platform test_client test_request ?w)
                        = Return (?j, None)"
    by simp
  have "?j \<noteq> HdfsJsonData_zero test_platform"
    by (simp add: HdfsJsonData_zero_def test_platform_def)
  with res show ?thesis by simp
qed


text \<open>The variant without the status check returns in the same two ways.\<close>

lemma requestHdfsData_knox_payload_or_error:
  "\<exists>v e w'. requestHdfsData_knox pf cl req w = (Return (v, e), w')
     \<and> ((e = None
          \<and> (\<exists>rsp n body. round_trip pf cl req (net w) = (Inr rsp, n)
                \<and> Body rsp = (body, None)
                \<and> (body = [] \<and> v = HdfsJsonData_zero pf
                    \<or> body \<noteq> []
                       \<and> json_Unmarshal pf body (HdfsJsonData_zero pf) = (v, None)
                       \<and> Exception (RemoteException v) = '''')))
         \<or> (e \<noteq> None \<and> v = HdfsJsonData_zero pf))"
proof -
  obtain r n where rt: "round_trip pf cl req (net w) = (r, n)"
    by (cases "round_trip pf cl req (net w)")
  have cd: "client_Do pf cl req w = (r, w\<lparr>sent := sent w @ [req], net := n\<rparr>)"
    using rt by (rule client_Do_eq)
  show ?thesis
  proof (cases r)
    case (Inl err)
    then show ?thesis using cd by (simp add: requestHdfsData_knox_def)
  next
    case (Inr rsp)
    obtain v e where re: "responseToHdfsData pf rsp = Return (v, e)"
      using responseToHdfsData_returns by blast
    have eq: "requestHdfsData_knox pf cl req w
                 = (Return (v, e), w\<lparr>sent := sent w @ [req], net := n\<rparr>)"
      using cd Inr re by (simp add: requestHdfsData_knox_def)
    show ?thesis
    proof (cases "e = None")
      case True
      then have "\<exists>body. Body rsp = (body, None)
            \<and> (body = [] \<and> v = HdfsJsonData_zero pf
                \<or> body \<noteq> [] \<and> json_Unmarshal pf body (HdfsJsonData_zero pf) = (v, None)
                    \<and> Exception (RemoteException v) = '''')"
        using re by (simp add: responseToHdfsData_decoded)
      then show ?thesis using eq True rt Inr by blast
    next
      case False
      then have "v = HdfsJsonData_zero pf"
        using responseToHdfsData_outcomes [OF re] by auto
      then show ?thesis using eq False by blast
    qed
  qed
qed

lemma requestHdfsData_bad_status:
  assumes "round_trip pf cl req (net w) = (Inr rsp, n)" and "StatusCode rsp \<noteq> StatusOK"
  shows "requestHdfsData pf cl req w =
          (Return (HdfsJsonData_zero pf,
             Some (ErrorfW errBadStatusCode
                     ('' : ('' @ fmt_d (StatusCode rsp) @ '') '' @ Status rsp))),
           w\<lparr>sent := sent w @ [req], net := n\<rparr>)"
  using assms client_Do_eq [OF assms(1)] by (simp add: requestHdfsData_def)

lemma requestHdfsData_status_ok:
  assumes "round_trip pf cl req (net w) = (Inr rsp, n)" and "StatusCode rsp = StatusOK"
  shows "requestHdfsData pf cl req w =
          (responseToHdfsData pf rsp, w\<lparr>sent := sent w @ [req], net := n\<rparr>)"
  using assms client_Do_eq [OF assms(1)] by (simp add: requestHdfsData_def)

lemma fmt_d_201: "fmt_d 201 = ''201''"
  by (simp add: fmt_d_def fmt_nat.simps decimal_digits_def)

lemma fmt_d_500: "fmt_d 500 = ''500''"
  by (simp add: fmt_d_def fmt_nat.simps decimal_digits_def)

text \<open>
  C3, as stated, fails: the first variant compares the status with 200 alone, so a
  response with status 201, which is inside the 2xx range, is answered with the error
  that wraps \<open>errBadStatusCode\<close>.
\<close>

theorem requestHdfsData_status_201_counterexample:
  "fst (requestHdfsData test_platform test_client test_request
          (test_world None [Inr (reply 201 ''201 Created'' '''', [])]
             :: (Configuration, test_net) world))
     = Return (HdfsJsonData_zero test_platform,
         Some (ErrorfW errBadStatusCode '' : (201) 201 Created''))
   \<and> errors_Is (ErrorfW errBadStatusCode '' : (201) 201 Created'') errBadStatusCode
   \<and> (200::int) \<le> 201 \<and> (201::int) \<le> 299"
proof -
  have st: "StatusCode (reply 201 ''201 Created'' '''') \<noteq> StatusOK"
    by (simp add: reply_def StatusOK_def)
  show ?thesis
    using requestHdfsData_bad_status [OF test_round_trip_one st] fmt_d_201
    by (simp add: reply_def)
qed

text \<open>
  C3, amended. In the status-checking variant, for every response whose status code is not
  200 (so for every status outside the 2xx range, and for 201 to 299 too)
  \<^verbatim>\<open>requestHdfsData\<close> fails with the error that wraps \<open>errBadStatusCode\<close> and whose text
  holds the status code in decimal and the status text; for a response with status 200 any
  error it returns is not such a Protocol error.
\<close>

theorem requestHdfsData_status_check:
  assumes "round_trip pf cl req (net w) = (Inr rsp, n)"
  shows "(StatusCode rsp \<noteq> 200 \<longrightarrow>
            fst (requestHdfsData pf cl req w)
              = Return (HdfsJsonData_zero pf,
                  Some (ErrorfW errBadStatusCode
                          ('' : ('' @ fmt_d (StatusCode rsp) @ '') '' @ Status rsp)))
            \<and> errors_Is (ErrorfW errBadStatusCode
                          ('' : ('' @ fmt_d (StatusCode rsp) @ '') '' @ Status rsp))
                 errBadStatusCode)
         \<and> (StatusCode rsp = 200 \<longrightarrow>
              (\<forall>v e. fst (requestHdfsData pf cl req w) = Return (v, Some e)
                 \<longrightarrow> \<not> errors_Is e errBadStatusCode))"
proof (intro conjI impI allI)
  assume "StatusCode rsp \<noteq> 200"
  then have "StatusCode rsp \<noteq> StatusOK" by (simp add: StatusOK_def)
  from requestHdfsData_bad_status [OF assms this]
  show "fst (requestHdfsData pf cl req w)
              = Return (HdfsJsonData_zero pf,
                  Some (ErrorfW errBadStatusCode
                          ('' : ('' @ fmt_d (StatusCode rsp) @ '') '' @ Status rsp)))"
    by simp
next
  show "errors_Is (ErrorfW errBadStatusCode
                          ('' : ('' @ fmt_d (StatusCode rsp) @ '') '' @ Status rsp))
                 errBadStatusCode"
    by simp
next
  fix v e
  assume "StatusCode rsp = 200"
    and r: "fst (requestHdfsData pf cl req w) = Return (v, Some e)"
  then have "StatusCode rsp = StatusOK" by (simp add: StatusOK_def)
  from requestHdfsData_status_ok [OF assms this] r
  have "responseToHdfsData pf rsp = Return (v, Some e)" by simp
  then show "\<not> errors_Is e errBadStatusCode"
    by (rule responseToHdfsData_not_protocol)
qed

theorem requestHdfsData_status_check_witness:
  "StatusCode (reply 500 ''500 Internal Server Error'' body_exception) \<noteq> 200
   \<and> fst (requestHdfsData test_platform test_client test_request
            (test_world None [Inr (reply 500 ''500 Internal Server Error'' body_exception, [])]
               :: (Configuration, test_net) world))
       = Return (HdfsJsonData_zero test_platform,
           Some (ErrorfW errBadStatusCode '' : (500) 500 Internal Server Error''))
   \<and> StatusCode (reply 200 ''200 OK'' body_exception) = 200
   \<and> fst (requestHdfsData test_platform test_client test_request
            (test_world None [Inr (reply 200 ''200 OK'' body_exception, [])]
               :: (Configuration, test_net) world))
       = Return (HdfsJsonData_zero test_platform,
           Some (RemoteError
             \<lparr>Exception = ''FileNotFoundException'', Message = ''m'', JavaClassName = ''c''\<rparr>))
   \<and> \<not> errors_Is (RemoteError
             \<lparr>Exception = ''FileNotFoundException'', Message = ''m'', JavaClassName = ''c''\<rparr>)
           errBadStatusCode"
proof -
  have st5: "StatusCode (reply 500 ''500 Internal Server Error'' body_exception) \<noteq> 200"
    by (simp add: reply_def)
  have st2: "StatusCode (reply 200 ''200 OK'' body_exception) = 200"
    by (simp add: reply_def)
  have bad: "fst (requestHdfsData test_platform test_client test_request
            (test_world None [Inr (reply 500 ''500 Internal Server Error'' body_exception, [])]
               :: (Configuration, test_net) world))
       = Return (HdfsJsonData_zero test_platform,
           Some (ErrorfW errBadStatusCode '' : (500) 500 Internal Server Error''))"
    using requestHdfsData_status_check [OF test_round_trip_one] st5 fmt_d_500
    by (simp add: reply_def)
  have ne: "body_exception \<noteq> []" by (simp add: body_exception_def)
  have dec: "responseToHdfsData test_platform (reply 200 ''200 OK'' body_exception)
      = Return (HdfsJsonData_zero test_platform,
           Some (RemoteError
             \<lparr>Exception = ''FileNotFoundException'', Message = ''m'', JavaClassName = ''c''\<rparr>))"
    using ne unmarshal_exception
    by (simp add: responseToHdfsData_def reply_def makeHdfsData_def len_def bytes_def)
  have ok: "fst (requestHdfsData test_platform test_client test_request
            (test_world None [Inr (reply 200 ''200 OK'' body_exception, [])]
               :: (Configuration, test_net) world))
       = Return (HdfsJsonData_zero test_platform,
           Some (RemoteError
             \<lparr>Exception = ''FileNotFoundException'', Message = ''m'', JavaClassName = ''c''\<rparr>))"
    using requestHdfsData_status_ok [OF test_round_trip_one] st2 dec
    by (simp add: StatusOK_def)
  have "\<not> errors_Is (RemoteError
             \<lparr>Exception = ''FileNotFoundException'', Message = ''m'', JavaClassName = ''c''\<rparr>)
           errBadStatusCode"
    using requestHdfsData_status_check [OF test_round_trip_one] st2 ok by blast
  with st5 bad st2 ok show ?thesis by simp
qed

section \<open>Deriving the base URL and building the request URL\<close>

text \<open>The order in which the \<^verbatim>\<open>range\<close> loop visits the entries of the parameter map
  does not matter: each key of the query gets the values it had, followed by the value the
  map gives it.\<close>

lemma attach_params_values:
  "attach_params q (Some m) key = q key @ map snd (filter (\<lambda>e. fst e = key) m)"
proof -
  have "fold (\<lambda>(k, v) q'. Values_Add q' k v) m q key
          = q key @ map snd (filter (\<lambda>e. fst e = key) m)" for q
  proof (induction m arbitrary: q)
    case Nil
    then show ?case by simp
  next
    case (Cons e m)
    obtain k v where e: "e = (k, v)" by (cases e)
    have "fold (\<lambda>(k, v) q'. Values_Add q' k v) (e # m) q key
            = fold (\<lambda>(k, v) q'. Values_Add q' k v) m (Values_Add q k v) key"
      by (simp add: e)
    also have "\<dots> = Values_Add q k v key @ map snd (filter (\<lambda>e. fst e = key) m)"
      by (rule Cons.IH)
    also have "\<dots> = q key @ map snd (filter (\<lambda>e. fst e = key) (e # m))"
      by (simp add: e Values_Add_def)
    finally show ?case .
  qed
  then show ?thesis by (simp add: attach_params_def)
qed

lemma filter_key_unique:
  assumes "distinct (map fst m)"
  shows "length (filter (\<lambda>e. fst e = key) m) \<le> 1"
  using assms
proof (induction m)
  case Nil
  then show ?case by simp
next
  case (Cons e m)
  show ?case
  proof (cases "fst e = key")
    case True
    have notin: "fst e \<notin> fst ` set m" using Cons.prems by simp
    have "\<forall>x \<in> set m. fst x \<noteq> key"
    proof
      fix x
      assume "x \<in> set m"
      then have "fst x \<in> fst ` set m" by (rule imageI)
      then show "fst x \<noteq> key" using notin True by metis
    qed
    then have "filter (\<lambda>e. fst e = key) m = []"
      by (simp add: filter_empty_conv)
    then show ?thesis using True by simp
  next
    case False
    then show ?thesis using Cons by simp
  qed
qed

lemma short_lists_same_set:
  assumes "length xs \<le> 1" and "length ys \<le> 1" and "set xs = set ys"
  shows "xs = ys"
proof (cases xs)
  case Nil
  then show ?thesis using assms(3) by simp
next
  case (Cons x xs')
  then have xs: "xs = [x]" using assms(1) by simp
  then have "x \<in> set ys" using assms(3) by auto
  then obtain y ys' where ys: "ys = y # ys'" by (cases ys) auto
  then have "ys = [y]" using assms(2) by simp
  then show ?thesis using xs assms(3) by simp
qed

lemma attach_params_order:
  assumes "distinct (map fst m)" and "distinct (map fst m')" and "set m = set m'"
  shows "attach_params q (Some m) = attach_params q (Some m')"
proof
  fix key
  have "set (filter (\<lambda>e. fst e = key) m) = set (filter (\<lambda>e. fst e = key) m')"
    using assms(3) by simp
  then have "filter (\<lambda>e. fst e = key) m = filter (\<lambda>e. fst e = key) m'"
    using filter_key_unique [OF assms(1)] filter_key_unique [OF assms(2)]
    by (intro short_lists_same_set) auto
  then show "attach_params q (Some m) key = attach_params q (Some m') key"
    by (simp add: attach_params_values)
qed

lemma field_addr_Some [simp]: "field_addr (Some a) f = Return (Some (a, f))"
  by (simp add: field_addr_def)

lemma load_store:
  "load (Some a) w = Some c \<Longrightarrow> load (Some a) (store (Some a) c' w) = Some c'"
  by (auto simp: load_def store_def split: if_splits)

lemma GetNameNodeUrl_at:
  assumes "load (Some a) w = Some c"
  shows "GetNameNodeUrl pf (Some a) w =
    (if User c = ''''
     then (case os_user w of
             None \<Rightarrow> (Panic NilDereference, w)
           | Some name \<Rightarrow>
              (case url_Parse pf ((if UseHTTPS c then ''https'' else ''http'') @ ''://'' @ Addr c
                      @ WebHdfsVer @ BasePath c @ ''?user.name='' @ name) of
                 Inl err \<Rightarrow> (Return (None, Some (Lib err)), store (Some a) (c\<lparr>User := name\<rparr>) w)
               | Inr u \<Rightarrow> (Return (Some u, None), store (Some a) (c\<lparr>User := name\<rparr>) w)))
     else (case url_Parse pf ((if UseHTTPS c then ''https'' else ''http'') @ ''://'' @ Addr c
                      @ WebHdfsVer @ BasePath c @ ''?user.name='' @ User c) of
             Inl err \<Rightarrow> (Return (None, Some (Lib err)), w)
           | Inr u \<Rightarrow> (Return (Some u, None), w)))"
  using assms load_store [OF assms]
  by (simp add: GetNameNodeUrl_def Let_def split: option.splits sum.splits)

lemma GetNameNodeUrl_knox_at:
  assumes "load (Some a) w = Some c"
  shows "GetNameNodeUrl_knox pf (Some a) w =
    (if User c = ''''
     then (case os_user w of
             None \<Rightarrow> (Panic NilDereference, w)
           | Some name \<Rightarrow>
              (case url_Parse pf
                      (if name \<noteq> ''''
                       then (if EnableHTTPS c then ''https'' else ''http'') @ ''://'' @ Addr c
                            @ WebHdfsVer @ BasePath c @ ''?user.name='' @ name
                       else (if EnableHTTPS c then ''https'' else ''http'') @ ''://'' @ Addr c
                            @ WebHdfsVer @ BasePath c) of
                 Inl err \<Rightarrow> (Return (None, Some (Lib err)), store (Some a) (c\<lparr>User := name\<rparr>) w)
               | Inr u \<Rightarrow> (Return (Some u, None), store (Some a) (c\<lparr>User := name\<rparr>) w)))
     else (case url_Parse pf ((if EnableHTTPS c then ''https'' else ''http'') @ ''://'' @ Addr c
                      @ WebHdfsVer @ BasePath c @ ''?user.name='' @ User c) of
             Inl err \<Rightarrow> (Return (None, Some (Lib err)), w)
           | Inr u \<Rightarrow> (Return (Some u, None), w)))"
  using assms load_store [OF assms]
  by (simp add: GetNameNodeUrl_knox_def Let_def split: option.splits sum.splits)

lemma GetNameNodeUrl_nil: "GetNameNodeUrl pf None w = (Panic NilDereference, w)"
  by (simp add: GetNameNodeUrl_def field_addr_def)

lemma GetNameNodeUrl_dangling:
  "load (Some a) w = None \<Longrightarrow> GetNameNodeUrl pf (Some a) w = (Panic NilDereference, w)"
  by (simp add: GetNameNodeUrl_def)

lemma GetNameNodeUrl_knox_nil: "GetNameNodeUrl_knox pf None w = (Panic NilDereference, w)"
  by (simp add: GetNameNodeUrl_knox_def field_addr_def)

lemma GetNameNodeUrl_knox_dangling:
  "load (Some a) w = None \<Longrightarrow> GetNameNodeUrl_knox pf (Some a) w = (Panic NilDereference, w)"
  by (simp add: GetNameNodeUrl_knox_def)

lemma GetNameNodeUrl_outcome:
  "fst (GetNameNodeUrl pf conf w) = Panic NilDereference
   \<or> (\<exists>err. fst (GetNameNodeUrl pf conf w) = Return (None, Some (Lib err)))
   \<or> (\<exists>u. fst (GetNameNodeUrl pf conf w) = Return (Some u, None))"
proof (cases conf)
  case None
  then show ?thesis by (simp add: GetNameNodeUrl_nil)
next
  case (Some a)
  show ?thesis
  proof (cases "load (Some a) w")
    case None
    then show ?thesis using Some by (simp add: GetNameNodeUrl_dangling)
  next
    case (Some c)
    show ?thesis
      unfolding \<open>conf = Some a\<close> GetNameNodeUrl_at [OF Some]
      by (simp split: option.splits sum.splits)
  qed
qed

lemma GetNameNodeUrl_knox_outcome:
  "fst (GetNameNodeUrl_knox pf conf w) = Panic NilDereference
   \<or> (\<exists>err. fst (GetNameNodeUrl_knox pf conf w) = Return (None, Some (Lib err)))
   \<or> (\<exists>u. fst (GetNameNodeUrl_knox pf conf w) = Return (Some u, None))"
proof (cases conf)
  case None
  then show ?thesis by (simp add: GetNameNodeUrl_knox_nil)
next
  case (Some a)
  show ?thesis
  proof (cases "load (Some a) w")
    case None
    then show ?thesis using Some by (simp add: GetNameNodeUrl_knox_dangling)
  next
    case (Some c)
    show ?thesis
      unfolding \<open>conf = Some a\<close> GetNameNodeUrl_knox_at [OF Some]
      by (simp split: option.splits sum.splits)
  qed
qed

lemma test_parse_unset:
  "url_Parse test_platform ''http:///webhdfs/v1?user.name=hdfs''
     = Inr \<lparr>Scheme = ''http'', Host = '''', Path = ''/webhdfs/v1'',
            RawQuery = ''user.name=hdfs''\<rparr>"
  by (simp add: test_platform_def test_url_Parse_def split_at_def)

text \<open>
  C1 does not hold of the code. The guard \<^verbatim>\<open>if &conf.Addr == nil\<close> compares the address of
  a field with nil; that address is never nil, so the branch that returns
  \<^verbatim>\<open>errors.New("Configuration namenode address not set.")\<close> is never taken, in either
  variant and for every configuration, an unset (empty) address included. With an empty
  address, the user \<^verbatim>\<open>hdfs\<close> and every other field zero, the first variant returns the URL
  \<^verbatim>\<open>http:///webhdfs/v1?user.name=hdfs\<close> and a nil error.
\<close>

theorem GetNameNodeUrl_unset_address:
  "fst (GetNameNodeUrl pf conf w)
     \<noteq> Return (None, Some (ErrorsNew ''Configuration namenode address not set.''))
   \<and> fst (GetNameNodeUrl_knox pf conf' w')
     \<noteq> Return (None, Some (ErrorsNew ''Configuration namenode address not set.''))
   \<and> fst (GetNameNodeUrl test_platform (Some 0)
           ((test_world None [])\<lparr>confs := [test_conf '''' '''' ''hdfs'']\<rparr>))
     = Return (Some \<lparr>Scheme = ''http'', Host = '''', Path = ''/webhdfs/v1'',
                     RawQuery = ''user.name=hdfs''\<rparr>, None)"
proof -
  have a: "fst (GetNameNodeUrl pf conf w)
     \<noteq> Return (None, Some (ErrorsNew ''Configuration namenode address not set.''))"
    using GetNameNodeUrl_outcome [of pf conf w] by auto
  have b: "fst (GetNameNodeUrl_knox pf conf' w')
     \<noteq> Return (None, Some (ErrorsNew ''Configuration namenode address not set.''))"
    using GetNameNodeUrl_knox_outcome [of pf conf' w'] by auto
  have ld: "load (Some 0) ((test_world None [])\<lparr>confs := [test_conf '''' '''' ''hdfs'']\<rparr>
              :: (Configuration, test_net) world)
            = Some (test_conf '''' '''' ''hdfs'')"
    by (simp add: load_def)
  have c: "fst (GetNameNodeUrl test_platform (Some 0)
           ((test_world None [])\<lparr>confs := [test_conf '''' '''' ''hdfs'']\<rparr>))
     = Return (Some \<lparr>Scheme = ''http'', Host = '''', Path = ''/webhdfs/v1'',
                     RawQuery = ''user.name=hdfs''\<rparr>, None)"
    unfolding GetNameNodeUrl_at [OF ld]
    using test_parse_unset by (simp add: test_conf_def WebHdfsVer_def)
  from a b c show ?thesis by blast
qed

lemma buildRequestUrl_gen_after_base:
  assumes "gnn pf (Some (fst (new_var conf w))) (snd (new_var conf w))
             = (Return (Some u, None), w1)"
  shows "buildRequestUrl_gen gnn pf conf p params w =
    (case append_path u p of
       Panic x \<Rightarrow> (Panic x, w1)
     | Return u1 \<Rightarrow>
        (Return (Some (u1\<lparr>RawQuery :=
            Values_Encode pf (attach_params (url_ParseQuery pf (RawQuery u1)) params)\<rparr>),
          None), w1))"
  using assms
  by (cases "append_path u p") (simp_all add: buildRequestUrl_gen_def new_var_def Let_def)

lemma buildRequestUrl_gen_snd:
  "snd (buildRequestUrl_gen gnn pf conf p params w)
     = snd (gnn pf (Some (fst (new_var conf w))) (snd (new_var conf w)))"
proof -
  obtain r w1 where g: "gnn pf (Some (fst (new_var conf w))) (snd (new_var conf w)) = (r, w1)"
    by (cases "gnn pf (Some (fst (new_var conf w))) (snd (new_var conf w))")
  show ?thesis
    using g
    by (simp add: buildRequestUrl_gen_def new_var_def Let_def
          split: result.splits prod.splits option.splits)
qed

lemma buildRequestUrl_gen_fst_cong:
  assumes "fst (gnn pf (Some (fst (new_var conf w))) (snd (new_var conf w)))
           = fst (gnn pf (Some (fst (new_var conf w2))) (snd (new_var conf w2)))"
  shows "fst (buildRequestUrl_gen gnn pf conf p params w)
         = fst (buildRequestUrl_gen gnn pf conf p params w2)"
proof -
  obtain r w1 where g: "gnn pf (Some (fst (new_var conf w))) (snd (new_var conf w)) = (r, w1)"
    by (cases "gnn pf (Some (fst (new_var conf w))) (snd (new_var conf w))")
  obtain r2 w3 where g2: "gnn pf (Some (fst (new_var conf w2))) (snd (new_var conf w2)) = (r2, w3)"
    by (cases "gnn pf (Some (fst (new_var conf w2))) (snd (new_var conf w2))")
  have "r = r2" using assms g g2 by simp
  then show ?thesis
    using g g2
    by (simp add: buildRequestUrl_gen_def new_var_def Let_def
          split: result.splits prod.splits option.splits)
qed

lemma load_new_var': "load (Some (fst (new_var c w))) (snd (new_var c w)) = Some c"
  by (simp add: new_var_def load_def)

lemma GetNameNodeUrl_fst_cong:
  assumes "load (Some a) w = Some c" and "load (Some a2) w2 = Some c"
    and "User c \<noteq> '''' \<or> os_user w2 = os_user w"
  shows "fst (GetNameNodeUrl pf (Some a2) w2) = fst (GetNameNodeUrl pf (Some a) w)"
  unfolding GetNameNodeUrl_at [OF assms(1)] GetNameNodeUrl_at [OF assms(2)]
  using assms(3) by (auto split: option.splits sum.splits)

lemma GetNameNodeUrl_snd:
  assumes "load (Some a) w = Some c"
  shows "snd (GetNameNodeUrl pf (Some a) w) = w
         \<or> (\<exists>name. User c = '''' \<and> os_user w = Some name
               \<and> snd (GetNameNodeUrl pf (Some a) w) = store (Some a) (c\<lparr>User := name\<rparr>) w)"
  unfolding GetNameNodeUrl_at [OF assms]
  by (auto split: option.splits sum.splits)

lemma store_new_var:
  "store (Some (fst (new_var c w))) c' (snd (new_var c w)) = w\<lparr>confs := confs w @ [c']\<rparr>"
  by (simp add: store_def new_var_def)

lemma buildRequestUrl_snd:
  "\<exists>c'. snd (buildRequestUrl pf conf p params w) = w\<lparr>confs := confs w @ [c']\<rparr>
        \<and> (c' = conf
            \<or> (User conf = '''' \<and> os_user w = Some (User c') \<and> c' = conf\<lparr>User := User c'\<rparr>))"
proof -
  let ?a = "fst (new_var conf w)" and ?w0 = "snd (new_var conf w)"
  have s: "snd (buildRequestUrl pf conf p params w) = snd (GetNameNodeUrl pf (Some ?a) ?w0)"
    by (simp add: buildRequestUrl_def buildRequestUrl_gen_snd)
  have os: "os_user ?w0 = os_user w" by (simp add: new_var_def)
  from GetNameNodeUrl_snd [OF load_new_var' [of conf w], of pf]
  show ?thesis
  proof
    assume "snd (GetNameNodeUrl pf (Some ?a) ?w0) = ?w0"
    then have "snd (buildRequestUrl pf conf p params w) = w\<lparr>confs := confs w @ [conf]\<rparr>"
      using s by (simp add: new_var_def)
    then show ?thesis by blast
  next
    assume "\<exists>name. User conf = '''' \<and> os_user ?w0 = Some name
               \<and> snd (GetNameNodeUrl pf (Some ?a) ?w0)
                    = store (Some ?a) (conf\<lparr>User := name\<rparr>) ?w0"
    then obtain name where n: "User conf = ''''" "os_user w = Some name"
      and st: "snd (GetNameNodeUrl pf (Some ?a) ?w0) = store (Some ?a) (conf\<lparr>User := name\<rparr>) ?w0"
      using os by auto
    have "snd (buildRequestUrl pf conf p params w) = w\<lparr>confs := confs w @ [conf\<lparr>User := name\<rparr>]\<rparr>"
      using s st by (simp add: store_new_var)
    moreover have "User (conf\<lparr>User := name\<rparr>) = name" by simp
    ultimately show ?thesis using n by (intro exI [of _ "conf\<lparr>User := name\<rparr>"]) simp
  qed
qed


lemma buildRequestUrl_after_base:
  assumes "GetNameNodeUrl pf (Some (fst (new_var conf w))) (snd (new_var conf w))
             = (Return (Some u, None), w1)"
  shows "buildRequestUrl pf conf p params w =
    (case append_path u p of
       Panic x \<Rightarrow> (Panic x, w1)
     | Return u1 \<Rightarrow>
        (Return (Some (u1\<lparr>RawQuery :=
            Values_Encode pf (attach_params (url_ParseQuery pf (RawQuery u1)) params)\<rparr>),
          None), w1))"
  unfolding buildRequestUrl_def
  using assms by (rule buildRequestUrl_gen_after_base [where gnn = GetNameNodeUrl])

lemma buildRequestUrl_knox_after_base:
  assumes "GetNameNodeUrl_knox pf (Some (fst (new_var conf w))) (snd (new_var conf w))
             = (Return (Some u, None), w1)"
  shows "buildRequestUrl_knox pf conf p params w =
    (case append_path u p of
       Panic x \<Rightarrow> (Panic x, w1)
     | Return u1 \<Rightarrow>
        (Return (Some (u1\<lparr>RawQuery :=
            Values_Encode pf (attach_params (url_ParseQuery pf (RawQuery u1)) params)\<rparr>),
          None), w1))"
  unfolding buildRequestUrl_knox_def
  using assms by (rule buildRequestUrl_gen_after_base [where gnn = GetNameNodeUrl_knox])

lemma test_parse_alice:
  "url_Parse test_platform ''http://nn:50070/webhdfs/v1?user.name=alice''
     = Inr \<lparr>Scheme = ''http'', Host = ''nn:50070'', Path = ''/webhdfs/v1'',
            RawQuery = ''user.name=alice''\<rparr>"
  by (simp add: test_platform_def test_url_Parse_def split_at_def)

lemma test_parse_bob:
  "url_Parse test_platform ''http://nn:50070/webhdfs/v1?user.name=bob''
     = Inr \<lparr>Scheme = ''http'', Host = ''nn:50070'', Path = ''/webhdfs/v1'',
            RawQuery = ''user.name=bob''\<rparr>"
  by (simp add: test_platform_def test_url_Parse_def split_at_def)

lemma test_parse_data:
  "url_Parse test_platform ''http://nn:50070/webhdfs/v1/data?user.name=hdfs''
     = Inr \<lparr>Scheme = ''http'', Host = ''nn:50070'', Path = ''/webhdfs/v1/data'',
            RawQuery = ''user.name=hdfs''\<rparr>"
  by (simp add: test_platform_def test_url_Parse_def split_at_def)

lemma test_parse_space:
  "url_Parse test_platform ''http://nn 50070/webhdfs/v1?user.name=hdfs''
     = Inl (LibError ''invalid character in host name'')"
  by (simp add: test_platform_def test_url_Parse_def)

lemma test_encode_user:
  "Values_Encode test_platform
     (attach_params (url_ParseQuery test_platform (''user.name='' @ name)) None)
     = ''user.name='' @ name"
  by (simp add: test_platform_def test_Values_Encode_def test_url_ParseQuery_def
        attach_params_def)

lemma test_encode_op:
  "Values_Encode test_platform
     (attach_params (url_ParseQuery test_platform (''user.name='' @ name))
        (Some [(''op'', v)]))
     = ''op='' @ v @ ''&user.name='' @ name"
  by (simp add: test_platform_def test_Values_Encode_def test_url_ParseQuery_def
        attach_params_def Values_Add_def)

lemma gnn_test_user:
  assumes "url_Parse pf (''http://'' @ addr @ WebHdfsVer @ base @ ''?user.name='' @ usr) = Inr u"
    and "usr \<noteq> ''''"
  shows "GetNameNodeUrl pf (Some (fst (new_var (test_conf addr base usr) w)))
           (snd (new_var (test_conf addr base usr) w))
         = (Return (Some u, None), snd (new_var (test_conf addr base usr) w))"
  unfolding GetNameNodeUrl_at [OF load_new_var']
  using assms by (simp add: test_conf_def)

lemma gnn_test_os_user:
  assumes "url_Parse pf (''http://'' @ addr @ WebHdfsVer @ base @ ''?user.name='' @ name) = Inr u"
    and "os_user w = Some name"
  shows "GetNameNodeUrl pf (Some (fst (new_var (test_conf addr base '''') w)))
           (snd (new_var (test_conf addr base '''') w))
         = (Return (Some u, None),
            store (Some (fst (new_var (test_conf addr base '''') w)))
              ((test_conf addr base '''')\<lparr>User := name\<rparr>)
              (snd (new_var (test_conf addr base '''') w)))"
  unfolding GetNameNodeUrl_at [OF load_new_var']
  using assms by (simp add: test_conf_def new_var_def)

text \<open>
  C2, as stated, fails: \<^verbatim>\<open>buildRequestUrl\<close> is not a function of its inputs alone. With
  an empty user field the same configuration, path and parameters give one URL when the
  operating system's user is \<^verbatim>\<open>alice\<close> and another when it is \<^verbatim>\<open>bob\<close>.
\<close>

theorem buildRequestUrl_os_user_counterexample:
  "fst (buildRequestUrl test_platform (test_conf ''nn:50070'' '''' '''') None None
          (test_world (Some ''alice'') []))
     = Return (Some \<lparr>Scheme = ''http'', Host = ''nn:50070'', Path = ''/webhdfs/v1'',
                     RawQuery = ''user.name=alice''\<rparr>, None)
   \<and> fst (buildRequestUrl test_platform (test_conf ''nn:50070'' '''' '''') None None
          (test_world (Some ''bob'') []))
     = Return (Some \<lparr>Scheme = ''http'', Host = ''nn:50070'', Path = ''/webhdfs/v1'',
                     RawQuery = ''user.name=bob''\<rparr>, None)
   \<and> fst (buildRequestUrl test_platform (test_conf ''nn:50070'' '''' '''') None None
          (test_world (Some ''alice'') []))
     \<noteq> fst (buildRequestUrl test_platform (test_conf ''nn:50070'' '''' '''') None None
          (test_world (Some ''bob'') []))"
proof -
  have pa: "url_Parse test_platform
              (''http://'' @ ''nn:50070'' @ WebHdfsVer @ '''' @ ''?user.name='' @ ''alice'')
            = Inr \<lparr>Scheme = ''http'', Host = ''nn:50070'', Path = ''/webhdfs/v1'',
                   RawQuery = ''user.name=alice''\<rparr>"
    using test_parse_alice by (simp add: WebHdfsVer_def)
  have pb: "url_Parse test_platform
              (''http://'' @ ''nn:50070'' @ WebHdfsVer @ '''' @ ''?user.name='' @ ''bob'')
            = Inr \<lparr>Scheme = ''http'', Host = ''nn:50070'', Path = ''/webhdfs/v1'',
                   RawQuery = ''user.name=bob''\<rparr>"
    using test_parse_bob by (simp add: WebHdfsVer_def)
  have oa: "os_user (test_world (Some ''alice'') [] :: (Configuration, test_net) world)
              = Some ''alice''"
    by (simp add: test_world_def)
  have ob: "os_user (test_world (Some ''bob'') [] :: (Configuration, test_net) world)
              = Some ''bob''"
    by (simp add: test_world_def)
  have a: "fst (buildRequestUrl test_platform (test_conf ''nn:50070'' '''' '''') None None
          (test_world (Some ''alice'') []))
     = Return (Some \<lparr>Scheme = ''http'', Host = ''nn:50070'', Path = ''/webhdfs/v1'',
                     RawQuery = ''user.name=alice''\<rparr>, None)"
    unfolding buildRequestUrl_after_base [OF gnn_test_os_user [OF pa oa]]
    using test_encode_user [of "''alice''"] by (simp add: append_path_def)
  have b: "fst (buildRequestUrl test_platform (test_conf ''nn:50070'' '''' '''') None None
          (test_world (Some ''bob'') []))
     = Return (Some \<lparr>Scheme = ''http'', Host = ''nn:50070'', Path = ''/webhdfs/v1'',
                     RawQuery = ''user.name=bob''\<rparr>, None)"
    unfolding buildRequestUrl_after_base [OF gnn_test_os_user [OF pb ob]]
    using test_encode_user [of "''bob''"] by (simp add: append_path_def)
  from a b show ?thesis by simp
qed


text \<open>
  C2, amended. \<^verbatim>\<open>buildRequestUrl\<close> sends nothing to the network and leaves the outside state
  and every \<^verbatim>\<open>Configuration\<close> variable of its caller as they were: it works on its own
  copy of the configuration, and the only field of that copy it may change is the user,
  defaulted to the operating system's user name when it is empty. Its result is determined by
  its inputs together with the operating system's user name, which matters only when the
  user field is empty.
\<close>

theorem buildRequestUrl_frame:
  "sent (snd (buildRequestUrl pf conf p params w)) = sent w
   \<and> net (snd (buildRequestUrl pf conf p params w)) = net w
   \<and> os_user (snd (buildRequestUrl pf conf p params w)) = os_user w
   \<and> take (length (confs w)) (confs (snd (buildRequestUrl pf conf p params w))) = confs w
   \<and> (\<exists>c'. confs (snd (buildRequestUrl pf conf p params w)) = confs w @ [c']
          \<and> (c' = conf
              \<or> (User conf = '''' \<and> os_user w = Some (User c')
                  \<and> c' = conf\<lparr>User := User c'\<rparr>)))
   \<and> (User conf \<noteq> '''' \<or> os_user w2 = os_user w
        \<longrightarrow> fst (buildRequestUrl pf conf p params w2) = fst (buildRequestUrl pf conf p params w))"
proof -
  obtain c' where w': "snd (buildRequestUrl pf conf p params w) = w\<lparr>confs := confs w @ [c']\<rparr>"
    and c': "c' = conf
            \<or> (User conf = '''' \<and> os_user w = Some (User c') \<and> c' = conf\<lparr>User := User c'\<rparr>)"
    using buildRequestUrl_snd by blast
  have frame: "sent (snd (buildRequestUrl pf conf p params w)) = sent w
   \<and> net (snd (buildRequestUrl pf conf p params w)) = net w
   \<and> os_user (snd (buildRequestUrl pf conf p params w)) = os_user w
   \<and> take (length (confs w)) (confs (snd (buildRequestUrl pf conf p params w))) = confs w"
    by (simp add: w')
  have copy: "\<exists>c'. confs (snd (buildRequestUrl pf conf p params w)) = confs w @ [c']
          \<and> (c' = conf
              \<or> (User conf = '''' \<and> os_user w = Some (User c')
                  \<and> c' = conf\<lparr>User := User c'\<rparr>))"
    using w' c' by (intro exI [of _ c']) simp
  have det: "User conf \<noteq> '''' \<or> os_user w2 = os_user w
        \<longrightarrow> fst (buildRequestUrl pf conf p params w2) = fst (buildRequestUrl pf conf p params w)"
  proof
    assume h: "User conf \<noteq> '''' \<or> os_user w2 = os_user w"
    have "User conf \<noteq> '''' \<or> os_user (snd (new_var conf w2)) = os_user (snd (new_var conf w))"
      using h by (simp add: new_var_def)
    from GetNameNodeUrl_fst_cong [OF load_new_var' load_new_var' this]
    show "fst (buildRequestUrl pf conf p params w2) = fst (buildRequestUrl pf conf p params w)"
      unfolding buildRequestUrl_def by (rule buildRequestUrl_gen_fst_cong)
  qed
  from frame copy det show ?thesis by blast
qed

theorem buildRequestUrl_frame_witness:
  "User (test_conf ''nn:50070'' '''' ''hdfs'') \<noteq> ''''
   \<and> fst (buildRequestUrl test_platform (test_conf ''nn:50070'' '''' ''hdfs'') None None
          (test_world (Some ''alice'') []))
     = fst (buildRequestUrl test_platform (test_conf ''nn:50070'' '''' ''hdfs'') None None
          (test_world (Some ''bob'') []))
   \<and> sent (snd (buildRequestUrl test_platform (test_conf ''nn:50070'' '''' ''hdfs'') None None
          (test_world (Some ''bob'') []))) = []"
proof -
  have u: "User (test_conf ''nn:50070'' '''' ''hdfs'') \<noteq> ''''"
    by (simp add: test_conf_def)
  have s: "sent (test_world (Some ''bob'') [] :: (Configuration, test_net) world) = []"
    by (simp add: test_world_def)
  from buildRequestUrl_frame
         [of test_platform "test_conf ''nn:50070'' '''' ''hdfs''" None None
             "test_world (Some ''bob'') []" "test_world (Some ''alice'') []"]
  show ?thesis using u s by simp
qed


lemma gnn_test_data:
  "GetNameNodeUrl test_platform
      (Some (fst (new_var (test_conf ''nn:50070'' ''/data'' ''hdfs'') w)))
      (snd (new_var (test_conf ''nn:50070'' ''/data'' ''hdfs'') w))
    = (Return (Some \<lparr>Scheme = ''http'', Host = ''nn:50070'', Path = ''/webhdfs/v1/data'',
                     RawQuery = ''user.name=hdfs''\<rparr>, None),
       snd (new_var (test_conf ''nn:50070'' ''/data'' ''hdfs'') w))"
proof -
  have "url_Parse test_platform
          (''http://'' @ ''nn:50070'' @ WebHdfsVer @ ''/data'' @ ''?user.name='' @ ''hdfs'')
        = Inr \<lparr>Scheme = ''http'', Host = ''nn:50070'', Path = ''/webhdfs/v1/data'',
               RawQuery = ''user.name=hdfs''\<rparr>"
    using test_parse_data by (simp add: WebHdfsVer_def)
  then show ?thesis by (rule gnn_test_user) simp
qed


lemma buildRequestUrl_gen_panic:
  assumes "fst (gnn pf (Some (fst (new_var conf w))) (snd (new_var conf w))) = Panic x"
  shows "fst (buildRequestUrl_gen gnn pf conf p params w) = Panic x"
proof -
  obtain r w1 where g: "gnn pf (Some (fst (new_var conf w))) (snd (new_var conf w)) = (r, w1)"
    by (cases "gnn pf (Some (fst (new_var conf w))) (snd (new_var conf w))")
  then have "r = Panic x" using assms by simp
  then show ?thesis
    using g by (simp add: buildRequestUrl_gen_def new_var_def)
qed

lemma buildRequestUrl_gen_error:
  assumes "fst (gnn pf (Some (fst (new_var conf w))) (snd (new_var conf w)))
             = Return (uo, Some err)"
  shows "fst (buildRequestUrl_gen gnn pf conf p params w) = Return (None, Some err)"
proof -
  obtain r w1 where g: "gnn pf (Some (fst (new_var conf w))) (snd (new_var conf w)) = (r, w1)"
    by (cases "gnn pf (Some (fst (new_var conf w))) (snd (new_var conf w))")
  then have "r = Return (uo, Some err)" using assms by simp
  then show ?thesis
    using g by (simp add: buildRequestUrl_gen_def new_var_def split: option.splits)
qed

lemma append_path_panic:
  "(append_path u p = Panic x) = (x = IndexOutOfRange \<and> (\<exists>pth. p = Some pth \<and> Name pth = ''''))"
  by (auto simp: append_path_def split: option.splits list.splits)

lemma buildRequestUrl_gen_index_panic:
  assumes "fst (gnn pf (Some (fst (new_var conf w))) (snd (new_var conf w))) = Panic NilDereference
   \<or> (\<exists>err. fst (gnn pf (Some (fst (new_var conf w))) (snd (new_var conf w)))
              = Return (None, Some (Lib err)))
   \<or> (\<exists>u. fst (gnn pf (Some (fst (new_var conf w))) (snd (new_var conf w)))
              = Return (Some u, None))"
  shows "(fst (buildRequestUrl_gen gnn pf conf p params w) = Panic IndexOutOfRange)
       = ((\<exists>u. fst (gnn pf (Some (fst (new_var conf w))) (snd (new_var conf w)))
                   = Return (Some u, None))
          \<and> (\<exists>pth. p = Some pth \<and> Name pth = ''''))"
  using assms
proof (elim disjE exE)
  assume a: "fst (gnn pf (Some (fst (new_var conf w))) (snd (new_var conf w)))
               = Panic NilDereference"
  from buildRequestUrl_gen_panic [where gnn = gnn, OF a] a show ?thesis by simp
next
  fix err
  assume a: "fst (gnn pf (Some (fst (new_var conf w))) (snd (new_var conf w)))
               = Return (None, Some (Lib err))"
  from buildRequestUrl_gen_error [where gnn = gnn, OF a] a show ?thesis by simp
next
  fix u
  assume a: "fst (gnn pf (Some (fst (new_var conf w))) (snd (new_var conf w)))
               = Return (Some u, None)"
  obtain w1 where g: "gnn pf (Some (fst (new_var conf w))) (snd (new_var conf w))
                        = (Return (Some u, None), w1)"
    using a by (cases "gnn pf (Some (fst (new_var conf w))) (snd (new_var conf w))") simp
  have "(fst (buildRequestUrl_gen gnn pf conf p params w) = Panic IndexOutOfRange)
        = (append_path u p = Panic IndexOutOfRange)"
    unfolding buildRequestUrl_gen_after_base [where gnn = gnn, OF g]
    by (cases "append_path u p") simp_all
  then show ?thesis using a by (simp add: append_path_panic)
qed

lemma gnn_test_space:
  "fst (GetNameNodeUrl test_platform
          (Some (fst (new_var (test_conf ''nn 50070'' '''' ''hdfs'') w)))
          (snd (new_var (test_conf ''nn 50070'' '''' ''hdfs'') w)))
    = Return (None, Some (Lib (LibError ''invalid character in host name'')))"
  unfolding GetNameNodeUrl_at [OF load_new_var']
  using test_parse_space by (simp add: test_conf_def WebHdfsVer_def)


text \<open>
  C10. In both variants \<^verbatim>\<open>buildRequestUrl\<close> reads \<^verbatim>\<open>p.Name[0]\<close> with no guard on the
  length: the call panics with an index out of range exactly when the base URL has been
  derived (so that the statement is reached) and the path is non-nil with the empty string
  as its name. A call that is to be safe whatever the configuration must therefore pass a
  nil path or a path whose name has at least one character.
\<close>

theorem buildRequestUrl_empty_name_panics:
  "(fst (buildRequestUrl pf conf p params w) = Panic IndexOutOfRange)
     = ((\<exists>u. fst (GetNameNodeUrl pf (Some (fst (new_var conf w))) (snd (new_var conf w)))
                 = Return (Some u, None))
        \<and> (\<exists>pth. p = Some pth \<and> Name pth = ''''))
   \<and> (fst (buildRequestUrl_knox pf' conf' p' params' w') = Panic IndexOutOfRange)
     = ((\<exists>u. fst (GetNameNodeUrl_knox pf' (Some (fst (new_var conf' w'))) (snd (new_var conf' w')))
                 = Return (Some u, None))
        \<and> (\<exists>pth. p' = Some pth \<and> Name pth = ''''))"
proof
  show "(fst (buildRequestUrl pf conf p params w) = Panic IndexOutOfRange)
     = ((\<exists>u. fst (GetNameNodeUrl pf (Some (fst (new_var conf w))) (snd (new_var conf w)))
                 = Return (Some u, None))
        \<and> (\<exists>pth. p = Some pth \<and> Name pth = ''''))"
    unfolding buildRequestUrl_def
    by (rule buildRequestUrl_gen_index_panic [where gnn = GetNameNodeUrl])
       (rule GetNameNodeUrl_outcome)
next
  show "(fst (buildRequestUrl_knox pf' conf' p' params' w') = Panic IndexOutOfRange)
     = ((\<exists>u. fst (GetNameNodeUrl_knox pf' (Some (fst (new_var conf' w'))) (snd (new_var conf' w')))
                 = Return (Some u, None))
        \<and> (\<exists>pth. p' = Some pth \<and> Name pth = ''''))"
    unfolding buildRequestUrl_knox_def
    by (rule buildRequestUrl_gen_index_panic [where gnn = GetNameNodeUrl_knox])
       (rule GetNameNodeUrl_knox_outcome)
qed

theorem buildRequestUrl_empty_name_panics_witness:
  "fst (buildRequestUrl test_platform (test_conf ''nn:50070'' ''/data'' ''hdfs'')
          (Some \<lparr>Name = ''''\<rparr>) (Some [(''op'', ''OPEN'')]) (test_world None []))
     = Panic IndexOutOfRange
   \<and> fst (buildRequestUrl test_platform (test_conf ''nn:50070'' ''/data'' ''hdfs'')
          None (Some [(''op'', ''OPEN'')]) (test_world None []))
     \<noteq> Panic IndexOutOfRange
   \<and> fst (buildRequestUrl test_platform (test_conf ''nn:50070'' ''/data'' ''hdfs'')
          (Some \<lparr>Name = ''x''\<rparr>) (Some [(''op'', ''OPEN'')]) (test_world None []))
     \<noteq> Panic IndexOutOfRange
   \<and> fst (buildRequestUrl test_platform (test_conf ''nn 50070'' '''' ''hdfs'')
          (Some \<lparr>Name = ''''\<rparr>) (Some [(''op'', ''OPEN'')]) (test_world None []))
     \<noteq> Panic IndexOutOfRange"
proof -
  let ?w = "test_world None [] :: (Configuration, test_net) world"
  let ?conf = "test_conf ''nn:50070'' ''/data'' ''hdfs''"
  let ?bad = "test_conf ''nn 50070'' '''' ''hdfs''"
  have g: "\<exists>u. fst (GetNameNodeUrl test_platform (Some (fst (new_var ?conf ?w)))
                     (snd (new_var ?conf ?w))) = Return (Some u, None)"
    by (simp add: gnn_test_data)
  have b: "\<not> (\<exists>u. fst (GetNameNodeUrl test_platform (Some (fst (new_var ?bad ?w)))
                     (snd (new_var ?bad ?w))) = Return (Some u, None))"
    by (simp add: gnn_test_space)
  note t = buildRequestUrl_empty_name_panics
             [where pf = test_platform and conf = ?conf and w = ?w, THEN conjunct1]
  note t2 = buildRequestUrl_empty_name_panics
             [where pf = test_platform and conf = ?bad and w = ?w, THEN conjunct1]
  from t [of "Some \<lparr>Name = ''''\<rparr>"] t [of None] t [of "Some \<lparr>Name = ''x''\<rparr>"] g
       t2 [of "Some \<lparr>Name = ''''\<rparr>"] b
  show ?thesis by simp
qed

section \<open>The authentication handshake and the constructor\<close>

lemma hasSessionCookie_iff:
  "hasSessionCookie cs = (\<exists>c \<in> set cs. CookieName c = ''JSESSIONID'')"
  by (induction cs) auto

lemma auth_after_response:
  assumes "buildRequestUrl_knox pf (Config fs) (Some \<lparr>Name = ''/''\<rparr>)
             (Some [(''op'', OP_LISTSTATUS)]) w0 = (Return (Some baseURL, None), w1)"
    and "http_NewRequest pf ''GET'' (url_String pf baseURL) = Inr req0"
    and "client_Do pf (client fs) (SetBasicAuth req0 (User (Config fs)) (Password (Config fs))) w1
           = (Inr resp, w2)"
  shows "auth pf fs w0 =
    (if StatusCode resp > 299
     then (Return (Some (Errorf (''response of fs.client.Get(''
              @ url_String pf (ReqURL (SetBasicAuth req0 (User (Config fs)) (Password (Config fs))))
              @ ''): '' @ httputil_DumpResponse pf resp @ '' ''))), w2)
     else if hasSessionCookie (jar_Cookies pf (net w2) baseURL)
     then (Return None, w2)
     else (Return (Some (Errorf ''session cookie not found in jar'')), w2))"
  using assms by (simp add: auth_def Let_def)

lemma NewFileSystem_knox_auth:
  assumes "EnableKnoxAuth conf" and "cookiejar_New pf (net w) = Inr n0"
  shows "NewFileSystem_knox pf conf w =
    (case auth pf (init_fs conf) (w\<lparr>net := n0\<rparr>) of
       (Panic x, w1) \<Rightarrow> (Panic x, w1)
     | (Return (Some err), w1) \<Rightarrow> (Return (None, Some (ErrorfV ''fs.Auth: '' err)), w1)
     | (Return None, w1) \<Rightarrow> (Return (Some (init_fs conf), None), w1))"
  using assms by (simp add: NewFileSystem_knox_def Let_def)

lemma NewFileSystem_knox_auth_error:
  assumes "EnableKnoxAuth conf" and "cookiejar_New pf (net w) = Inr n0"
    and "fst (auth pf (init_fs conf) (w\<lparr>net := n0\<rparr>)) = Return (Some err)"
  shows "fst (NewFileSystem_knox pf conf w) = Return (None, Some (ErrorfV ''fs.Auth: '' err))"
proof -
  obtain r w1 where a: "auth pf (init_fs conf) (w\<lparr>net := n0\<rparr>) = (r, w1)"
    by (cases "auth pf (init_fs conf) (w\<lparr>net := n0\<rparr>)")
  then have "r = Return (Some err)" using assms(3) by simp
  then show ?thesis
    unfolding NewFileSystem_knox_auth [OF assms(1,2)] using a by simp
qed

lemma NewFileSystem_knox_auth_ok:
  assumes "EnableKnoxAuth conf" and "cookiejar_New pf (net w) = Inr n0"
    and "fst (auth pf (init_fs conf) (w\<lparr>net := n0\<rparr>)) = Return None"
  shows "fst (NewFileSystem_knox pf conf w) = Return (Some (init_fs conf), None)"
proof -
  obtain r w1 where a: "auth pf (init_fs conf) (w\<lparr>net := n0\<rparr>) = (r, w1)"
    by (cases "auth pf (init_fs conf) (w\<lparr>net := n0\<rparr>)")
  then have "r = Return None" using assms(3) by simp
  then show ?thesis
    unfolding NewFileSystem_knox_auth [OF assms(1,2)] using a by simp
qed


lemma test_parse_hdfs:
  "url_Parse test_platform ''http://nn:50070/webhdfs/v1?user.name=hdfs''
     = Inr \<lparr>Scheme = ''http'', Host = ''nn:50070'', Path = ''/webhdfs/v1'',
            RawQuery = ''user.name=hdfs''\<rparr>"
  by (simp add: test_platform_def test_url_Parse_def split_at_def)

lemma gnn_knox_test:
  "GetNameNodeUrl_knox test_platform
      (Some (fst (new_var (test_conf_knox ''nn:50070'' '''' ''hdfs'' True) w)))
      (snd (new_var (test_conf_knox ''nn:50070'' '''' ''hdfs'' True) w))
    = (Return (Some \<lparr>Scheme = ''http'', Host = ''nn:50070'', Path = ''/webhdfs/v1'',
                     RawQuery = ''user.name=hdfs''\<rparr>, None),
       snd (new_var (test_conf_knox ''nn:50070'' '''' ''hdfs'' True) w))"
  unfolding GetNameNodeUrl_knox_at [OF load_new_var']
  using test_parse_hdfs by (simp add: test_conf_knox_def WebHdfsVer_def)

lemma build_knox_test:
  "buildRequestUrl_knox test_platform (test_conf_knox ''nn:50070'' '''' ''hdfs'' True)
      (Some \<lparr>Name = ''/''\<rparr>) (Some [(''op'', OP_LISTSTATUS)]) w
    = (Return (Some \<lparr>Scheme = ''http'', Host = ''nn:50070'', Path = ''/webhdfs/v1/'',
                     RawQuery = ''op=LISTSTATUS&user.name=hdfs''\<rparr>, None),
       snd (new_var (test_conf_knox ''nn:50070'' '''' ''hdfs'' True) w))"
  unfolding buildRequestUrl_knox_after_base [OF gnn_knox_test]
  using test_encode_op [of "''hdfs''" OP_LISTSTATUS]
  by (simp add: append_path_def OP_LISTSTATUS_def)

lemma newreq_test:
  "http_NewRequest test_platform ''GET''
      (url_String test_platform
         \<lparr>Scheme = ''http'', Host = ''nn:50070'', Path = ''/webhdfs/v1/'',
          RawQuery = ''op=LISTSTATUS&user.name=hdfs''\<rparr>)
    = Inr \<lparr>Method = ''GET'',
           ReqURL = \<lparr>Scheme = ''http'', Host = ''nn:50070'', Path = ''/webhdfs/v1/'',
                     RawQuery = ''op=LISTSTATUS&user.name=hdfs''\<rparr>,
           BasicAuth = None\<rparr>"
  by (simp add: test_platform_def test_http_NewRequest_def test_url_String_def
        test_url_Parse_def split_at_def)

lemma do_test:
  "client_Do test_platform cl req
     (snd (new_var c (test_world usr [Inr (rsp, cs)])))
   = (Inr rsp,
      \<lparr>os_user = usr, confs = [c], sent = [req], net = \<lparr>replies = [], jar = cs\<rparr>\<rparr>)"
  by (simp add: client_Do_def test_platform_def test_round_trip_def test_world_def new_var_def)

lemma jar_test: "cookiejar_New test_platform (net (test_world usr rs :: ('c, test_net) world))
                   = Inr (net (test_world usr rs :: ('c, test_net) world))"
  by (simp add: test_platform_def test_world_def)

text \<open>
  C4, as stated, fails in one part: the handshake does not fail on every non-success
  status. The code tests \<^verbatim>\<open>resp.StatusCode > 299\<close>, so a response with status 101, which
  is below the 2xx range, passes the test; with a \<^verbatim>\<open>JSESSIONID\<close> cookie in the jar the
  handshake returns nil and the constructor returns the file system.
\<close>

theorem NewFileSystem_knox_status_101_counterexample:
  "fst (auth test_platform (init_fs (test_conf_knox ''nn:50070'' '''' ''hdfs'' True))
          (test_world None
             [Inr (reply 101 ''101 Switching Protocols'' '''',
                   [\<lparr>CookieName = ''JSESSIONID'', CookieValue = ''abc''\<rparr>])]))
     = Return None
   \<and> fst (NewFileSystem_knox test_platform (test_conf_knox ''nn:50070'' '''' ''hdfs'' True)
          (test_world None
             [Inr (reply 101 ''101 Switching Protocols'' '''',
                   [\<lparr>CookieName = ''JSESSIONID'', CookieValue = ''abc''\<rparr>])]))
     = Return (Some (init_fs (test_conf_knox ''nn:50070'' '''' ''hdfs'' True)), None)
   \<and> StatusCode (reply 101 ''101 Switching Protocols'' '''') = 101
   \<and> \<not> (200 \<le> (101::int))"
proof -
  let ?conf = "test_conf_knox ''nn:50070'' '''' ''hdfs'' True"
  let ?rsp = "reply 101 ''101 Switching Protocols'' ''''"
  let ?cs = "[\<lparr>CookieName = ''JSESSIONID'', CookieValue = ''abc''\<rparr>]"
  let ?w = "test_world None [Inr (?rsp, ?cs)] :: (Configuration_knox, test_net) world"
  have cfg: "Config (init_fs ?conf) = ?conf" by (simp add: init_fs_def Let_def)
  have b: "buildRequestUrl_knox test_platform (Config (init_fs ?conf))
      (Some \<lparr>Name = ''/''\<rparr>) (Some [(''op'', OP_LISTSTATUS)]) ?w
    = (Return (Some \<lparr>Scheme = ''http'', Host = ''nn:50070'', Path = ''/webhdfs/v1/'',
                     RawQuery = ''op=LISTSTATUS&user.name=hdfs''\<rparr>, None),
       snd (new_var ?conf ?w))"
    unfolding cfg by (rule build_knox_test)
  note a = auth_after_response [OF b newreq_test do_test]
  have auth_ok: "fst (auth test_platform (init_fs ?conf) ?w) = Return None"
    unfolding a by (simp add: reply_def test_platform_def)
  have k: "EnableKnoxAuth ?conf" by (simp add: test_conf_knox_def)
  have "fst (auth test_platform (init_fs ?conf) (?w\<lparr>net := net ?w\<rparr>)) = Return None"
    using auth_ok by simp
  from NewFileSystem_knox_auth_ok [OF k jar_test this]
  have "fst (NewFileSystem_knox test_platform ?conf ?w) = Return (Some (init_fs ?conf), None)" .
  with auth_ok show ?thesis by (simp add: reply_def)
qed


text \<open>
  C4, amended. With auth mode enabled (and the cookie jar created), the constructor fails
  whenever the handshake fails, with the handshake's error after the text
  \<^verbatim>\<open>fs.Auth: \<close>. Once the handshake's request has been built and answered, the handshake
  fails when the status is above 299, and also when the status is at most 299 (every
  success status is) and the cookie jar holds no cookie named \<^verbatim>\<open>JSESSIONID\<close> for the
  base URL.
\<close>

theorem NewFileSystem_knox_handshake:
  assumes "EnableKnoxAuth conf" and "cookiejar_New pf (net w) = Inr n0"
  shows "(\<forall>err. fst (auth pf (init_fs conf) (w\<lparr>net := n0\<rparr>)) = Return (Some err)
            \<longrightarrow> fst (NewFileSystem_knox pf conf w)
                  = Return (None, Some (ErrorfV ''fs.Auth: '' err)))
       \<and> (\<forall>fs w0 baseURL w1 req0 resp w2.
            buildRequestUrl_knox pf (Config fs) (Some \<lparr>Name = ''/''\<rparr>)
                (Some [(''op'', OP_LISTSTATUS)]) w0 = (Return (Some baseURL, None), w1)
            \<and> http_NewRequest pf ''GET'' (url_String pf baseURL) = Inr req0
            \<and> client_Do pf (client fs)
                  (SetBasicAuth req0 (User (Config fs)) (Password (Config fs))) w1
                = (Inr resp, w2)
            \<longrightarrow> (StatusCode resp > 299
                   \<longrightarrow> (\<exists>err. fst (auth pf fs w0) = Return (Some err)))
                \<and> (StatusCode resp \<le> 299
                     \<and> (\<forall>c \<in> set (jar_Cookies pf (net w2) baseURL).
                            CookieName c \<noteq> ''JSESSIONID'')
                   \<longrightarrow> fst (auth pf fs w0)
                         = Return (Some (Errorf ''session cookie not found in jar''))))"
proof (intro conjI allI impI)
  fix err
  assume "fst (auth pf (init_fs conf) (w\<lparr>net := n0\<rparr>)) = Return (Some err)"
  with assms show "fst (NewFileSystem_knox pf conf w)
                  = Return (None, Some (ErrorfV ''fs.Auth: '' err))"
    by (rule NewFileSystem_knox_auth_error)
next
  fix fs :: FileSystem and w0 baseURL w1 req0 resp w2
  assume steps: "buildRequestUrl_knox pf (Config fs) (Some \<lparr>Name = ''/''\<rparr>)
                (Some [(''op'', OP_LISTSTATUS)]) w0 = (Return (Some baseURL, None), w1)
            \<and> http_NewRequest pf ''GET'' (url_String pf baseURL) = Inr req0
            \<and> client_Do pf (client fs)
                  (SetBasicAuth req0 (User (Config fs)) (Password (Config fs))) w1
                = (Inr resp, w2)"
  note a = auth_after_response [OF steps [THEN conjunct1]
             steps [THEN conjunct2, THEN conjunct1] steps [THEN conjunct2, THEN conjunct2]]
  {
    assume "StatusCode resp > 299"
    then show "\<exists>err. fst (auth pf fs w0) = Return (Some err)"
      unfolding a by simp
  }
  {
    assume "StatusCode resp \<le> 299
             \<and> (\<forall>c \<in> set (jar_Cookies pf (net w2) baseURL). CookieName c \<noteq> ''JSESSIONID'')"
    then show "fst (auth pf fs w0) = Return (Some (Errorf ''session cookie not found in jar''))"
      unfolding a by (simp add: hasSessionCookie_iff)
  }
qed

theorem NewFileSystem_knox_handshake_witness:
  "EnableKnoxAuth (test_conf_knox ''nn:50070'' '''' ''hdfs'' True)
   \<and> StatusCode (reply 200 ''200 OK'' '''') \<le> 299
   \<and> fst (auth test_platform (init_fs (test_conf_knox ''nn:50070'' '''' ''hdfs'' True))
          (test_world None [Inr (reply 200 ''200 OK'' '''', [])]))
     = Return (Some (Errorf ''session cookie not found in jar''))
   \<and> fst (NewFileSystem_knox test_platform (test_conf_knox ''nn:50070'' '''' ''hdfs'' True)
          (test_world None [Inr (reply 200 ''200 OK'' '''', [])]))
     = Return (None, Some (ErrorfV ''fs.Auth: '' (Errorf ''session cookie not found in jar'')))"
proof -
  let ?conf = "test_conf_knox ''nn:50070'' '''' ''hdfs'' True"
  let ?rsp = "reply 200 ''200 OK'' ''''"
  let ?w = "test_world None [Inr (?rsp, [])] :: (Configuration_knox, test_net) world"
  let ?base = "\<lparr>Scheme = ''http'', Host = ''nn:50070'', Path = ''/webhdfs/v1/'',
                RawQuery = ''op=LISTSTATUS&user.name=hdfs''\<rparr>"
  let ?req0 = "\<lparr>Method = ''GET'', ReqURL = ?base, BasicAuth = None\<rparr>"
  let ?req = "SetBasicAuth ?req0 (User (Config (init_fs ?conf))) (Password (Config (init_fs ?conf)))"
  let ?w2 = "\<lparr>os_user = None, confs = [?conf], sent = [?req],
              net = \<lparr>replies = [], jar = []\<rparr>\<rparr> :: (Configuration_knox, test_net) world"
  have cfg: "Config (init_fs ?conf) = ?conf" by (simp add: init_fs_def Let_def)
  have k: "EnableKnoxAuth ?conf" by (simp add: test_conf_knox_def)
  have st: "StatusCode ?rsp \<le> 299" by (simp add: reply_def)
  have b: "buildRequestUrl_knox test_platform (Config (init_fs ?conf))
      (Some \<lparr>Name = ''/''\<rparr>) (Some [(''op'', OP_LISTSTATUS)]) ?w
    = (Return (Some ?base, None), snd (new_var ?conf ?w))"
    unfolding cfg by (rule build_knox_test)
  have d: "client_Do test_platform (client (init_fs ?conf)) ?req (snd (new_var ?conf ?w))
             = (Inr ?rsp, ?w2)"
    by (rule do_test)
  have nc: "\<forall>c \<in> set (jar_Cookies test_platform (net ?w2) ?base). CookieName c \<noteq> ''JSESSIONID''"
    by (simp add: test_platform_def)
  have jt: "cookiejar_New test_platform (net ?w) = Inr (net ?w)"
    by (rule jar_test)
  note t = NewFileSystem_knox_handshake [OF k jt]
  have a: "fst (auth test_platform (init_fs ?conf) ?w)
             = Return (Some (Errorf ''session cookie not found in jar''))"
    using t [THEN conjunct2] b newreq_test d st nc by blast
  then have "fst (auth test_platform (init_fs ?conf) (?w\<lparr>net := net ?w\<rparr>))
             = Return (Some (Errorf ''session cookie not found in jar''))"
    by simp
  with t [THEN conjunct1]
  have "fst (NewFileSystem_knox test_platform ?conf ?w)
     = Return (None, Some (ErrorfV ''fs.Auth: '' (Errorf ''session cookie not found in jar'')))"
    by blast
  with k st a show ?thesis by simp
qed

end
